theory Spec2Isabelle
  imports Complex_Main "HOL-Library.Stream" "HOL-Library.Signed_Division"
begin

section \<open>The fireworks particle simulation of main.cpp\<close>

text \<open>
  The simulation core of \<^verbatim>\<open>src/main.cpp\<close>: the structs \<^verbatim>\<open>Particle\<close>,
  \<^verbatim>\<open>TrailParticle\<close>, \<^verbatim>\<open>ExplosionParticle\<close> and \<^verbatim>\<open>Firework\<close>, their update,
  respawn and reset members, and \<^verbatim>\<open>initFireworks\<close>. Rendering, window set-up and shader
  handling do not touch the simulation state and are left out.

  Modelling decisions, valid for the whole development:
  \<^item> a C++ \<^verbatim>\<open>float\<close> is an exact real number: rounding, infinities and NaN are not
    represented, so every statement below is about the arithmetic the code writes down,
    not about its binary32 rounding;
  \<^item> \<^verbatim>\<open>glm::vec3\<close> and \<^verbatim>\<open>glm::vec4\<close> are triples and quadruples of reals with glm's
    component-wise operators;
  \<^item> \<^verbatim>\<open>rand()\<close> reads the next element of an explicit stream of numbers that is passed
    through every function that calls it, in the order of the calls;
  \<^item> a member function that mutates its object returns the updated object;
  \<^item> the constants at the head of main.cpp are fields of a record \<open>config\<close>, and
    \<open>source_config\<close> holds the values main.cpp gives them.
\<close>

subsection \<open>Vectors\<close>

datatype vec3 = Vec3 (vec_x: real) (vec_y: real) (vec_z: real)

datatype vec4 = Vec4 (vec4_x: real) (vec4_y: real) (vec4_z: real) (vec4_w: real)

text \<open>\<^verbatim>\<open>a + b\<close> on two vectors.\<close>

fun vadd :: "vec3 \<Rightarrow> vec3 \<Rightarrow> vec3" where
  "vadd (Vec3 a b c) (Vec3 d e f) = Vec3 (a + d) (b + e) (c + f)"

text \<open>\<^verbatim>\<open>v + s\<close> with a scalar \<open>s\<close>: glm adds the scalar to every component.\<close>

fun vadd_scalar :: "vec3 \<Rightarrow> real \<Rightarrow> vec3" where
  "vadd_scalar (Vec3 a b c) s = Vec3 (a + s) (b + s) (c + s)"

text \<open>\<^verbatim>\<open>v * s\<close> and \<^verbatim>\<open>s * v\<close> with a scalar \<open>s\<close>.\<close>

fun vmul :: "vec3 \<Rightarrow> real \<Rightarrow> vec3" where
  "vmul (Vec3 a b c) s = Vec3 (a * s) (b * s) (c * s)"

fun smul :: "real \<Rightarrow> vec3 \<Rightarrow> vec3" where
  "smul s (Vec3 a b c) = Vec3 (s * a) (s * b) (s * c)"

text \<open>The assignment \<^verbatim>\<open>color.w = l\<close>.\<close>

fun set_w :: "vec4 \<Rightarrow> real \<Rightarrow> vec4" where
  "set_w (Vec4 r g b a) l = Vec4 r g b l"

subsection \<open>Configuration constants\<close>

record config =
  WORLD_WIDTH :: int
  NUM_OUTER_CIRCLE_VERTICES :: int
  GRAVITY :: vec3
  NUM_FIREWORKS :: int
  MIN_PARTICLES :: int
  MAX_PARTICLES :: int
  NUM_TRAIL_PARTICLES :: int
  MIN_SCALE :: real
  SCALE_RANGE :: int
  MAX_INIT_X_VEL :: int
  MIN_INIT_X_VEL :: int
  MAX_INIT_Y_VEL :: int
  MIN_INIT_Y_VEL :: int
  MIN_MAGNITUDE :: int
  MAX_MAGNITUDE :: int
  EXPLOSION_LIFE_DECREASE_RATE :: real
  TRAIL_MIN_DECREASE_RATE :: real
  TRAIL_MAX_DECREASE_RATE :: real

definition source_config :: config where
  "source_config =
     \<lparr> WORLD_WIDTH = 800,
       NUM_OUTER_CIRCLE_VERTICES = 50,
       GRAVITY = Vec3 0 (- 200) 0,
       NUM_FIREWORKS = 10,
       MIN_PARTICLES = 30,
       MAX_PARTICLES = 50,
       NUM_TRAIL_PARTICLES = 15,
       MIN_SCALE = 1,
       SCALE_RANGE = 2,
       MAX_INIT_X_VEL = 20,
       MIN_INIT_X_VEL = - 20,
       MAX_INIT_Y_VEL = 500,
       MIN_INIT_Y_VEL = 300,
       MIN_MAGNITUDE = 20,
       MAX_MAGNITUDE = 200,
       EXPLOSION_LIFE_DECREASE_RATE = 1 / 2,
       TRAIL_MIN_DECREASE_RATE = 3,
       TRAIL_MAX_DECREASE_RATE = 6 \<rparr>"

subsection \<open>Random numbers\<close>

text \<open>
  \<^verbatim>\<open>RAND_MAX\<close> comes from \<^verbatim>\<open><cstdlib>\<close>; the value is glibc's. The proofs only use
  that it is positive.
\<close>

definition RAND_MAX :: nat where
  "RAND_MAX = 2147483647"

type_synonym rng = "nat stream"

text \<open>
  \<^verbatim>\<open>rand()\<close> returns an \<^verbatim>\<open>int\<close> between 0 and \<^verbatim>\<open>RAND_MAX\<close> and advances the
  generator.
\<close>

definition rand :: "rng \<Rightarrow> int \<times> rng" where
  "rand g = (int (shd g mod Suc RAND_MAX), stl g)"

text \<open>The expression \<^verbatim>\<open>(float) rand() / RAND_MAX\<close> on a value \<open>r\<close> of \<^verbatim>\<open>rand()\<close>.\<close>

definition rand_unit :: "int \<Rightarrow> real" where
  "rand_unit r = real_of_int r / real RAND_MAX"

text \<open>
  The expression \<^verbatim>\<open>((rand() % 100) - 50) / 10.0f\<close> on a value \<open>r\<close> of \<^verbatim>\<open>rand()\<close>.
  The operator \<^verbatim>\<open>%\<close> on \<^verbatim>\<open>int\<close> truncates towards zero, which is \<open>smod\<close>; C++ leaves
  \<^verbatim>\<open>a % 0\<close> undefined, where \<open>a smod 0 = a\<close>.
\<close>

definition jitter :: "int \<Rightarrow> real" where
  "jitter r = real_of_int (r smod 100 - 50) / 10"

subsection \<open>Particles\<close>

text \<open>
  The base struct also declares a \<^verbatim>\<open>lifeDecreaseRate\<close> that no code reads or writes;
  \<^verbatim>\<open>TrailParticle\<close> hides it with its own member, which is the one kept here.
  \<^verbatim>\<open>life\<close> starts at 1.0 by its default member initialiser.
\<close>

record Particle =
  pos :: vec3
  vel :: vec3
  color :: vec4
  life :: real
  scale :: real

record TrailParticle = Particle +
  lifeDecreaseRate :: real

record ExplosionParticle = Particle +
  origVel :: vec3
  trailParticles :: "TrailParticle list"

text \<open>The constructor \<^verbatim>\<open>TrailParticle(pos, vel, color, scale, lifeDecreaseRate)\<close>.\<close>

definition TrailParticle_new :: "vec3 \<Rightarrow> vec3 \<Rightarrow> vec4 \<Rightarrow> real \<Rightarrow> real \<Rightarrow> TrailParticle" where
  "TrailParticle_new p v c s d =
     \<lparr> pos = p, vel = v, color = c, life = 1, scale = s, lifeDecreaseRate = d \<rparr>"

text \<open>\<^verbatim>\<open>TrailParticle::update(dt, sourceVel, sourceLife)\<close>, one binding per statement.\<close>

definition TrailParticle_update :: "TrailParticle \<Rightarrow> real \<Rightarrow> vec3 \<Rightarrow> real \<Rightarrow> TrailParticle" where
  "TrailParticle_update p dt sourceVel sourceLife =
     (let p1 = p\<lparr>vel := sourceVel\<rparr>;
          p2 = p1\<lparr>pos := vadd (pos p1) (vmul (smul (life p1) (vel p1)) dt)\<rparr>;
          p3 = (if life p2 > sourceLife then p2\<lparr>life := sourceLife\<rparr> else p2);
          p4 = p3\<lparr>color := set_w (color p3) (life p3)\<rparr>
      in p4\<lparr>life := life p4 - lifeDecreaseRate p4 * dt\<rparr>)"

text \<open>
  The loop of the \<^verbatim>\<open>ExplosionParticle\<close> constructor: \<open>n\<close> trail particles at the
  particle's position, each with its own decay rate and a tenth of the velocity.
\<close>

fun new_explosion_trails ::
  "config \<Rightarrow> nat \<Rightarrow> vec3 \<Rightarrow> vec3 \<Rightarrow> vec4 \<Rightarrow> rng \<Rightarrow> TrailParticle list \<times> rng" where
  "new_explosion_trails cfg 0 p v c g = ([], g)"
| "new_explosion_trails cfg (Suc n) p v c g =
     (let (r, g1) = rand g;
          lifeDecrease = rand_unit r * (TRAIL_MAX_DECREASE_RATE cfg - TRAIL_MIN_DECREASE_RATE cfg)
                           + TRAIL_MIN_DECREASE_RATE cfg;
          particleVel = vmul v (1 / 10);
          t = TrailParticle_new p particleVel c 1 lifeDecrease;
          (ts, g2) = new_explosion_trails cfg n p v c g1
      in (t # ts, g2))"

text \<open>The constructor \<^verbatim>\<open>ExplosionParticle(pos, vel, color, scale)\<close>.\<close>

definition ExplosionParticle_new ::
  "config \<Rightarrow> vec3 \<Rightarrow> vec3 \<Rightarrow> vec4 \<Rightarrow> real \<Rightarrow> rng \<Rightarrow> ExplosionParticle \<times> rng" where
  "ExplosionParticle_new cfg p v c s g =
     (let (ts, g1) = new_explosion_trails cfg (nat (NUM_TRAIL_PARTICLES cfg)) p v c g
      in (\<lparr> pos = p, vel = v, color = c, life = 1, scale = s,
             origVel = v, trailParticles = ts \<rparr>, g1))"

text \<open>\<^verbatim>\<open>ExplosionParticle::respawnTrailParticle(p)\<close>.\<close>

definition respawnTrailParticle ::
  "ExplosionParticle \<Rightarrow> TrailParticle \<Rightarrow> rng \<Rightarrow> TrailParticle \<times> rng" where
  "respawnTrailParticle e p g =
     (let (r, g1) = rand g;
          random = jitter r
      in (p\<lparr>life := 1, pos := vadd_scalar (pos e) random, vel := vmul (vel e) (1 / 10)\<rparr>, g1))"

text \<open>
  The loop over \<^verbatim>\<open>trailParticles\<close> in \<^verbatim>\<open>ExplosionParticle::update\<close>. It changes the
  trail particles only, so the owner \<open>e\<close> is the same in every iteration.
\<close>

fun update_explosion_trails ::
  "ExplosionParticle \<Rightarrow> real \<Rightarrow> TrailParticle list \<Rightarrow> rng \<Rightarrow> TrailParticle list \<times> rng" where
  "update_explosion_trails e dt [] g = ([], g)"
| "update_explosion_trails e dt (p # ps) g =
     (let p1 = TrailParticle_update p dt (vel e) (life e);
          (p2, g1) = (if life p1 \<le> 0 then respawnTrailParticle e p1 g else (p1, g));
          (ps', g2) = update_explosion_trails e dt ps g1
      in (p2 # ps', g2))"

text \<open>\<^verbatim>\<open>ExplosionParticle::update(dt)\<close>.\<close>

definition ExplosionParticle_update ::
  "config \<Rightarrow> ExplosionParticle \<Rightarrow> real \<Rightarrow> rng \<Rightarrow> ExplosionParticle \<times> rng" where
  "ExplosionParticle_update cfg e dt g =
     (let (ts, g1) = update_explosion_trails e dt (trailParticles e) g;
          e1 = e\<lparr>trailParticles := ts\<rparr>;
          e2 = e1\<lparr>vel := vmul (smul (life e1) (origVel e1)) dt\<rparr>;
          e3 = e2\<lparr>pos := vadd (pos e2) (vel e2)\<rparr>;
          e4 = e3\<lparr>color := set_w (color e3) (life e3)\<rparr>
      in (e4\<lparr>life := life e4 - EXPLOSION_LIFE_DECREASE_RATE cfg * dt\<rparr>, g1))"

subsection \<open>Fireworks\<close>

text \<open>
  The members \<^verbatim>\<open>pos\<close>, \<^verbatim>\<open>vel\<close>, \<^verbatim>\<open>color\<close>, \<^verbatim>\<open>scale\<close> and \<^verbatim>\<open>trailParticles\<close> of
  \<^verbatim>\<open>Firework\<close> carry the prefix \<open>fw_\<close>, since the particle records own the plain names.
\<close>

record Firework =
  fw_pos :: vec3
  fw_vel :: vec3
  fw_color :: vec4
  fw_scale :: real
  exploded :: bool
  numParticles :: int
  fw_trailParticles :: "TrailParticle list"
  explosionParticles :: "ExplosionParticle list"

text \<open>\<^verbatim>\<open>Firework::respawnParticle(p)\<close>.\<close>

definition respawnParticle :: "Firework \<Rightarrow> TrailParticle \<Rightarrow> rng \<Rightarrow> TrailParticle \<times> rng" where
  "respawnParticle fw p g =
     (let (r, g1) = rand g;
          random = jitter r;
          (r', g2) = rand g1
      in (p\<lparr>life := 1, pos := vadd_scalar (fw_pos fw) random,
             vel := vmul (fw_vel fw) (rand_unit r' * (1 / 4) + 3 / 4)\<rparr>, g2))"

text \<open>\<^verbatim>\<open>Firework::randomiseColor()\<close>.\<close>

definition randomiseColor :: "Firework \<Rightarrow> rng \<Rightarrow> Firework \<times> rng" where
  "randomiseColor fw g =
     (let (r1, g1) = rand g;
          r = rand_unit r1 * (3 / 4) + 1 / 4;
          (r2, g2) = rand g1;
          gr = rand_unit r2 * (3 / 4) + 1 / 4;
          (r3, g3) = rand g2;
          b = rand_unit r3 * (3 / 4) + 1 / 4
      in (fw\<lparr>fw_color := Vec4 r gr b 1\<rparr>, g3))"

text \<open>The loop at the end of \<^verbatim>\<open>Firework::reset\<close>, which creates \<open>n\<close> rocket trail particles.\<close>

fun new_rocket_trails :: "config \<Rightarrow> nat \<Rightarrow> Firework \<Rightarrow> rng \<Rightarrow> TrailParticle list \<times> rng" where
  "new_rocket_trails cfg 0 fw g = ([], g)"
| "new_rocket_trails cfg (Suc n) fw g =
     (let (r, g1) = rand g;
          lifeDecrease = rand_unit r * (TRAIL_MAX_DECREASE_RATE cfg - TRAIL_MIN_DECREASE_RATE cfg)
                           + TRAIL_MIN_DECREASE_RATE cfg;
          (r', g2) = rand g1;
          particleVel = vmul (fw_vel fw) (rand_unit r' * (1 / 4) + 3 / 4);
          t = TrailParticle_new (fw_pos fw) particleVel (fw_color fw) 1 lifeDecrease;
          (ts, g3) = new_rocket_trails cfg n fw g2
      in (t # ts, g3))"

text \<open>
  \<^verbatim>\<open>Firework::reset()\<close>. The two \<^verbatim>\<open>rand()\<close> calls in the arguments of the velocity's
  constructor are taken from left to right (C++ does not fix their order).
\<close>

definition reset :: "config \<Rightarrow> Firework \<Rightarrow> rng \<Rightarrow> Firework \<times> rng" where
  "reset cfg fw g =
     (let fw1 = fw\<lparr>explosionParticles :=
                    map (\<lambda>p. p\<lparr>trailParticles := []\<rparr>) (explosionParticles fw)\<rparr>;
          fw2 = fw1\<lparr>explosionParticles := []\<rparr>;
          fw3 = fw2\<lparr>fw_trailParticles := []\<rparr>;
          fw4 = fw3\<lparr>exploded := False\<rparr>;
          (r1, g1) = rand g;
          fw5 = fw4\<lparr>numParticles :=
                    r1 smod (MAX_PARTICLES cfg - MIN_PARTICLES cfg) + MIN_PARTICLES cfg\<rparr>;
          (r2, g2) = rand g1;
          fw6 = fw5\<lparr>fw_pos := Vec3 (real_of_int (r2 smod WORLD_WIDTH cfg)) 0 0\<rparr>;
          (r3, g3) = rand g2;
          (r4, g4) = rand g3;
          fw7 = fw6\<lparr>fw_vel :=
                    Vec3 (real_of_int (r3 smod (MAX_INIT_X_VEL cfg - MIN_INIT_X_VEL cfg)
                                         + MIN_INIT_X_VEL cfg))
                         (real_of_int (r4 smod (MAX_INIT_Y_VEL cfg - MIN_INIT_Y_VEL cfg)
                                         + MIN_INIT_Y_VEL cfg))
                         0\<rparr>;
          (r5, g5) = rand g4;
          fw8 = fw7\<lparr>fw_scale := real_of_int (r5 smod SCALE_RANGE cfg) + MIN_SCALE cfg\<rparr>;
          (fw9, g6) = randomiseColor fw8 g5;
          (ts, g7) = new_rocket_trails cfg (nat (NUM_TRAIL_PARTICLES cfg)) fw9 g6
      in (fw9\<lparr>fw_trailParticles := fw_trailParticles fw9 @ ts\<rparr>, g7))"

text \<open>
  The constructor \<^verbatim>\<open>Firework()\<close> calls \<^verbatim>\<open>reset()\<close> on an object whose vectors are empty
  and whose \<^verbatim>\<open>exploded\<close> is false; the other members are not initialised and \<^verbatim>\<open>reset\<close>
  assigns every one of them, so they are zero here.
\<close>

definition Firework_new :: "config \<Rightarrow> rng \<Rightarrow> Firework \<times> rng" where
  "Firework_new cfg g =
     reset cfg \<lparr> fw_pos = Vec3 0 0 0, fw_vel = Vec3 0 0 0, fw_color = Vec4 0 0 0 0,
                 fw_scale = 0, exploded = False, numParticles = 0,
                 fw_trailParticles = [], explosionParticles = [] \<rparr> g"

text \<open>The loop over the rocket's trail particles in \<^verbatim>\<open>Firework::update\<close>.\<close>

fun update_rocket_trails ::
  "Firework \<Rightarrow> real \<Rightarrow> TrailParticle list \<Rightarrow> rng \<Rightarrow> TrailParticle list \<times> rng" where
  "update_rocket_trails fw dt [] g = ([], g)"
| "update_rocket_trails fw dt (p # ps) g =
     (let p1 = TrailParticle_update p dt (fw_vel fw) 1;
          (p2, g1) = (if life p1 \<le> 0 then respawnParticle fw p1 g else (p1, g));
          (ps', g2) = update_rocket_trails fw dt ps g1
      in (p2 # ps', g2))"

text \<open>
  The loop that creates \<open>n\<close> explosion particles. The scale argument of the constructor,
  with its \<^verbatim>\<open>rand()\<close>, is evaluated before the constructor's body runs.
\<close>

fun new_explosion_particles ::
  "config \<Rightarrow> nat \<Rightarrow> real \<Rightarrow> Firework \<Rightarrow> rng \<Rightarrow> ExplosionParticle list \<times> rng" where
  "new_explosion_particles cfg 0 theta fw g = ([], g)"
| "new_explosion_particles cfg (Suc n) theta fw g =
     (let (r1, g1) = rand g;
          randTheta = real_of_int (r1 smod NUM_OUTER_CIRCLE_VERTICES cfg) * theta;
          particleVel = Vec3 (cos randTheta) (sin randTheta) 0;
          (r2, g2) = rand g1;
          particleVel' = vmul particleVel
            (real_of_int (r2 smod (MAX_MAGNITUDE cfg - MIN_MAGNITUDE cfg) + MIN_MAGNITUDE cfg));
          (r3, g3) = rand g2;
          (e, g4) = ExplosionParticle_new cfg (fw_pos fw) particleVel' (fw_color fw)
                      (real_of_int (r3 smod SCALE_RANGE cfg) + MIN_SCALE cfg) g3;
          (es, g5) = new_explosion_particles cfg n theta fw g4
      in (e # es, g5))"

text \<open>
  The loop over \<^verbatim>\<open>explosionParticles\<close> in \<^verbatim>\<open>Firework::update\<close> calls \<^verbatim>\<open>reset()\<close> from
  inside the iteration, and \<^verbatim>\<open>reset()\<close> clears the vector being iterated. The range-for
  statement fixed its begin and end before the first iteration and \<^verbatim>\<open>clear()\<close> keeps
  the storage, so the compiled loop goes on over the former elements, whose trail vectors
  \<^verbatim>\<open>reset()\<close> emptied; they no longer belong to the firework. (The C++ standard gives
  this no meaning.) \<open>update_stale_explosions\<close> is the loop after a reset,
  \<open>update_explosions\<close> the loop before one: \<open>done\<close> are the elements already updated,
  the list argument the ones still to visit.
\<close>

fun update_stale_explosions ::
  "config \<Rightarrow> real \<Rightarrow> Firework \<Rightarrow> ExplosionParticle list \<Rightarrow> rng \<Rightarrow> Firework \<times> rng" where
  "update_stale_explosions cfg dt fw [] g = (fw, g)"
| "update_stale_explosions cfg dt fw (p # ps) g =
     (let (p', g1) = ExplosionParticle_update cfg p dt g
      in if life p' \<le> 0
         then (let (fw', g2) = reset cfg fw g1 in update_stale_explosions cfg dt fw' ps g2)
         else update_stale_explosions cfg dt fw ps g1)"

fun update_explosions ::
  "config \<Rightarrow> real \<Rightarrow> Firework \<Rightarrow> ExplosionParticle list \<Rightarrow> ExplosionParticle list \<Rightarrow> rng
     \<Rightarrow> Firework \<times> rng" where
  "update_explosions cfg dt fw done [] g = (fw\<lparr>explosionParticles := done\<rparr>, g)"
| "update_explosions cfg dt fw done (p # ps) g =
     (let (p', g1) = ExplosionParticle_update cfg p dt g
      in if life p' \<le> 0
         then (let (fw', g2) = reset cfg (fw\<lparr>explosionParticles := done @ p' # ps\<rparr>) g1
               in update_stale_explosions cfg dt fw'
                    (map (\<lambda>q. q\<lparr>trailParticles := []\<rparr>) ps) g2)
         else update_explosions cfg dt fw (done @ [p']) ps g1)"

text \<open>\<^verbatim>\<open>Firework::update(dt)\<close>.\<close>

definition Firework_update :: "config \<Rightarrow> Firework \<Rightarrow> real \<Rightarrow> rng \<Rightarrow> Firework \<times> rng" where
  "Firework_update cfg fw dt g =
     (if exploded fw
      then update_explosions cfg dt fw [] (explosionParticles fw) g
      else
        (let fw1 = fw\<lparr>fw_vel := vadd (fw_vel fw) (vmul (GRAVITY cfg) dt)\<rparr>;
             fw2 = fw1\<lparr>fw_pos := vadd (fw_pos fw1) (vmul (fw_vel fw1) dt)\<rparr>;
             (ts, g1) = update_rocket_trails fw2 dt (fw_trailParticles fw2) g;
             fw3 = fw2\<lparr>fw_trailParticles := ts\<rparr>
         in if vec_y (fw_vel fw3) < 0
            then
              (let fw4 = fw3\<lparr>exploded := True\<rparr>;
                   fw5 = fw4\<lparr>fw_trailParticles := []\<rparr>;
                   theta = pi * 2 / real_of_int (NUM_OUTER_CIRCLE_VERTICES cfg);
                   (es, g2) = new_explosion_particles cfg (nat (numParticles fw5)) theta fw5 g1
               in (fw5\<lparr>explosionParticles := explosionParticles fw5 @ es\<rparr>, g2))
            else (fw3, g1)))"

subsection \<open>The world\<close>

text \<open>The loop of \<^verbatim>\<open>initFireworks()\<close>, which appends \<open>n\<close> new fireworks.\<close>

fun new_fireworks :: "config \<Rightarrow> nat \<Rightarrow> rng \<Rightarrow> Firework list \<times> rng" where
  "new_fireworks cfg 0 g = ([], g)"
| "new_fireworks cfg (Suc n) g =
     (let (fw, g1) = Firework_new cfg g;
          (fws, g2) = new_fireworks cfg n g1
      in (fw # fws, g2))"

text \<open>
  \<^verbatim>\<open>initFireworks()\<close> on the global vector \<open>fireworks\<close>. It returns nothing and has no
  statement that throws, exits or reports an error.
\<close>

definition initFireworks :: "config \<Rightarrow> Firework list \<Rightarrow> rng \<Rightarrow> Firework list \<times> rng" where
  "initFireworks cfg fireworks g =
     (let (fws, g1) = new_fireworks cfg (nat (NUM_FIREWORKS cfg)) g
      in (fireworks @ fws, g1))"

text \<open>The global \<^verbatim>\<open>update(dt)\<close>: every firework in turn.\<close>

fun update :: "config \<Rightarrow> Firework list \<Rightarrow> real \<Rightarrow> rng \<Rightarrow> Firework list \<times> rng" where
  "update cfg [] dt g = ([], g)"
| "update cfg (firework # rest) dt g =
     (let (firework', g1) = Firework_update cfg firework dt g;
          (rest', g2) = update cfg rest dt g1
      in (firework' # rest', g2))"

subsection \<open>Running the simulation\<close>

text \<open>
  The frame loop of \<^verbatim>\<open>main\<close> calls \<^verbatim>\<open>update(deltaTime)\<close> once per frame. \<open>simulate\<close>
  runs the frames whose time steps are the elements of \<open>dts\<close>, in order.
\<close>

fun simulate :: "config \<Rightarrow> Firework list \<Rightarrow> real list \<Rightarrow> rng \<Rightarrow> Firework list \<times> rng" where
  "simulate cfg fireworks [] g = (fireworks, g)"
| "simulate cfg fireworks (dt # dts) g =
     (let (fireworks', g1) = update cfg fireworks dt g
      in simulate cfg fireworks' dts g1)"

text \<open>\<open>n\<close> successive calls \<^verbatim>\<open>update(dt)\<close> on one firework, with the same time step.\<close>

fun Firework_ticks :: "config \<Rightarrow> nat \<Rightarrow> Firework \<Rightarrow> real \<Rightarrow> rng \<Rightarrow> Firework \<times> rng" where
  "Firework_ticks cfg 0 fw dt g = (fw, g)"
| "Firework_ticks cfg (Suc n) fw dt g =
     (let (fw', g1) = Firework_update cfg fw dt g
      in Firework_ticks cfg n fw' dt g1)"

subsection \<open>States of a firework\<close>

text \<open>
  The two configurations of the specification: the rocket is rising with its trail and
  no explosion particles, or the firework has exploded and owns explosion particles only.
\<close>

definition RISING :: "Firework \<Rightarrow> bool" where
  "RISING fw \<longleftrightarrow> exploded fw = False \<and> fw_trailParticles fw \<noteq> [] \<and> explosionParticles fw = []"

definition EXPLODED :: "Firework \<Rightarrow> bool" where
  "EXPLODED fw \<longleftrightarrow> exploded fw = True \<and> fw_trailParticles fw = [] \<and> explosionParticles fw \<noteq> []"

text \<open>Every trail particle a firework owns, directly or through an explosion particle,
  has scale 1.\<close>

definition trail_scales_one :: "Firework \<Rightarrow> bool" where
  "trail_scales_one fw \<longleftrightarrow>
     list_all (\<lambda>t. scale t = 1) (fw_trailParticles fw)
     \<and> list_all (\<lambda>e. list_all (\<lambda>t. scale t = 1) (trailParticles e)) (explosionParticles fw)"

subsection \<open>A malformed configuration\<close>

text \<open>
  The constants of main.cpp with the particle-count range reversed (minimum 50, maximum
  30) and both trail decay rates negative.
\<close>

definition malformed_config :: config where
  "malformed_config =
     source_config\<lparr> MIN_PARTICLES := 50, MAX_PARTICLES := 30,
                    TRAIL_MIN_DECREASE_RATE := - 6, TRAIL_MAX_DECREASE_RATE := - 3 \<rparr>"

text \<open>
  The configurations on which the \<^verbatim>\<open>int\<close> arithmetic of \<^verbatim>\<open>reset()\<close> is defined in
  C++: no \<^verbatim>\<open>%\<close> has a zero divisor, and the constants are small enough for the
  differences and sums to stay inside a 32-bit \<^verbatim>\<open>int\<close>.
\<close>

definition sampling_defined :: "config \<Rightarrow> bool" where
  "sampling_defined cfg \<longleftrightarrow>
     MAX_PARTICLES cfg \<noteq> MIN_PARTICLES cfg
     \<and> WORLD_WIDTH cfg \<noteq> 0
     \<and> MAX_INIT_X_VEL cfg \<noteq> MIN_INIT_X_VEL cfg
     \<and> MAX_INIT_Y_VEL cfg \<noteq> MIN_INIT_Y_VEL cfg
     \<and> SCALE_RANGE cfg \<noteq> 0
     \<and> \<bar>MAX_PARTICLES cfg\<bar> \<le> 100000000 \<and> \<bar>MIN_PARTICLES cfg\<bar> \<le> 100000000
     \<and> \<bar>WORLD_WIDTH cfg\<bar> \<le> 100000000
     \<and> \<bar>MAX_INIT_X_VEL cfg\<bar> \<le> 100000000 \<and> \<bar>MIN_INIT_X_VEL cfg\<bar> \<le> 100000000
     \<and> \<bar>MAX_INIT_Y_VEL cfg\<bar> \<le> 100000000 \<and> \<bar>MIN_INIT_Y_VEL cfg\<bar> \<le> 100000000
     \<and> \<bar>SCALE_RANGE cfg\<bar> \<le> 100000000
     \<and> \<bar>NUM_TRAIL_PARTICLES cfg\<bar> \<le> 100000000 \<and> \<bar>NUM_FIREWORKS cfg\<bar> \<le> 100000000"

subsection \<open>An exploded firework with one spent particle\<close>

text \<open>
  A firework in its exploded state with two explosion particles: the first has its full
  life 1, the second has life 1/100 left.
\<close>

definition example_particle :: ExplosionParticle where
  "example_particle =
     fst (ExplosionParticle_new source_config (Vec3 100 300 0) (Vec3 20 0 0) (Vec4 1 1 1 1) 1
            (sconst 100))"

definition example_burst :: Firework where
  "example_burst =
     \<lparr> fw_pos = Vec3 100 300 0, fw_vel = Vec3 0 (- 20) 0, fw_color = Vec4 1 1 1 1,
       fw_scale = 1, exploded = True, numParticles = 30, fw_trailParticles = [],
       explosionParticles = [example_particle, example_particle\<lparr>life := 1 / 100\<rparr>] \<rparr>"

section \<open>Properties\<close>

subsection \<open>Arithmetic of the random samples\<close>

lemma set_w_w: "vec4_w (set_w c l) = l"
  by (cases c) simp

lemma RAND_MAX_pos: "0 < RAND_MAX"
  by (simp add: RAND_MAX_def)

lemma rand_range: "0 \<le> fst (rand g) \<and> fst (rand g) \<le> int RAND_MAX"
  by (simp add: rand_def less_Suc_eq_le [symmetric])

lemma rand_unit_range:
  assumes "0 \<le> r" "r \<le> int RAND_MAX"
  shows "0 \<le> rand_unit r \<and> rand_unit r \<le> 1"
proof -
  have "real_of_int r \<le> real RAND_MAX" using assms(2) by linarith
  then show ?thesis using assms(1) RAND_MAX_pos by (simp add: rand_unit_def)
qed

lemma smod_of_nonneg: "0 \<le> r \<Longrightarrow> r smod d = r mod \<bar>d\<bar>" for r d :: int
  by (cases "r = 0") (simp_all add: signed_modulo_int_def sgn_if)

lemma smod_nonneg: "0 \<le> r \<Longrightarrow> 0 < d \<Longrightarrow> 0 \<le> r smod d \<and> r smod d < d" for r d :: int
  by (simp add: smod_of_nonneg)

lemma jitter_range:
  assumes "0 \<le> r"
  shows "- 5 \<le> jitter r \<and> jitter r \<le> 49 / 10"
proof -
  have "0 \<le> r smod 100 \<and> r smod 100 < 100" using assms by (simp add: smod_nonneg)
  then have "- 50 \<le> r smod 100 - 50 \<and> r smod 100 - 50 \<le> 49" by linarith
  then have "- 50 \<le> real_of_int (r smod 100 - 50) \<and> real_of_int (r smod 100 - 50) \<le> 49"
    by (metis of_int_le_iff of_int_numeral of_int_minus)
  then show ?thesis by (simp add: jitter_def)
qed

subsection \<open>Particle updates\<close>

text \<open>
  Claim C1, as the code has it. \<^verbatim>\<open>update\<close> copies \<^verbatim>\<open>life\<close> into the alpha channel and
  then lowers \<^verbatim>\<open>life\<close> by the decay of the tick. When the call returns, alpha is the life
  the particle had just before that decrement (for a trail particle: after the clamp to
  the source's life), and life is alpha minus the decay rate times \<open>dt\<close>. This holds for
  both variants, every \<open>dt\<close> and every source.
\<close>

theorem update_alpha_is_life_before_decay:
  "vec4_w (color (TrailParticle_update p dt sv sl)) = min (life p) sl
   \<and> life (TrailParticle_update p dt sv sl)
       = vec4_w (color (TrailParticle_update p dt sv sl)) - lifeDecreaseRate p * dt
   \<and> vec4_w (color (fst (ExplosionParticle_update cfg e dt g))) = life e
   \<and> life (fst (ExplosionParticle_update cfg e dt g))
       = vec4_w (color (fst (ExplosionParticle_update cfg e dt g)))
           - EXPLOSION_LIFE_DECREASE_RATE cfg * dt"
  by (simp add: TrailParticle_update_def ExplosionParticle_update_def Let_def set_w_w
      split_beta min_def)

text \<open>
  Claim C1, as the specification words it, fails: a trail particle with life 1 and decay
  rate 4, updated with \<open>dt = 1/4\<close> behind a source of life 1, comes back with alpha 1 and
  life 0.
\<close>

theorem update_alpha_eq_life_counterexample:
  "vec4_w (color (TrailParticle_update
            (TrailParticle_new (Vec3 0 0 0) (Vec3 0 0 0) (Vec4 1 1 1 1) 1 4)
            (1 / 4) (Vec3 0 400 0) 1)) = 1
   \<and> life (TrailParticle_update
            (TrailParticle_new (Vec3 0 0 0) (Vec3 0 0 0) (Vec4 1 1 1 1) 1 4)
            (1 / 4) (Vec3 0 400 0) 1) = 0"
  by (simp add: TrailParticle_update_def TrailParticle_new_def Let_def)

text \<open>
  Claim C2. \<^verbatim>\<open>TrailParticle::update(dt, sourceVel, sourceLife)\<close> has exactly this effect:
  the velocity becomes the source's; the position advances by the particle's life on
  entry times the new velocity times \<open>dt\<close>; the life is clamped to the source's life;
  alpha becomes the clamped life; the life then drops by the decay rate times \<open>dt\<close>.
  Nothing else changes. The life at the clamp, which is the alpha that is stored and also
  the final life before its decay is taken off, is at most the source's life.
\<close>

theorem TrailParticle_update_steps:
  "TrailParticle_update p dt sourceVel sourceLife
     = p\<lparr> vel := sourceVel,
          pos := vadd (pos p) (vmul (smul (life p) sourceVel) dt),
          color := set_w (color p) (if life p > sourceLife then sourceLife else life p),
          life := (if life p > sourceLife then sourceLife else life p)
                    - lifeDecreaseRate p * dt \<rparr>
   \<and> vec4_w (color (TrailParticle_update p dt sourceVel sourceLife)) \<le> sourceLife
   \<and> life (TrailParticle_update p dt sourceVel sourceLife)
       + lifeDecreaseRate (TrailParticle_update p dt sourceVel sourceLife) * dt \<le> sourceLife"
  by (simp add: TrailParticle_update_def Let_def set_w_w)

text \<open>
  The trail loop of \<^verbatim>\<open>ExplosionParticle::update\<close>, element by element: each trail
  particle is updated against the owner's velocity and life, and is respawned at the
  owner's position when its life has dropped to zero or below.
\<close>

lemma update_explosion_trails_rel:
  "list_all2 (\<lambda>t t'. if life (TrailParticle_update t dt (vel e) (life e)) \<le> 0
                     then \<exists>r. 0 \<le> r \<and> t' = (TrailParticle_update t dt (vel e) (life e))
                              \<lparr>life := 1, pos := vadd_scalar (pos e) (jitter r),
                               vel := vmul (vel e) (1 / 10)\<rparr>
                     else t' = TrailParticle_update t dt (vel e) (life e))
     ts (fst (update_explosion_trails e dt ts g))"
proof (induction ts arbitrary: g)
  case Nil
  then show ?case by simp
next
  case (Cons t ts)
  show ?case
  proof (cases "life (TrailParticle_update t dt (vel e) (life e)) \<le> 0")
    case True
    have "0 \<le> fst (rand g)" using rand_range by simp
    with True Cons show ?thesis
      by (auto simp: Let_def split_beta respawnTrailParticle_def)
  next
    case False
    with Cons show ?thesis by (simp add: Let_def split_beta)
  qed
qed

text \<open>
  Claim C3. \<^verbatim>\<open>ExplosionParticle::update(dt)\<close> on a particle \<open>e\<close>: every owned trail
  particle is updated with the velocity and life \<open>e\<close> has on entry, and one whose life
  is then zero or below is respawned (life 1, position of \<open>e\<close> on entry plus a jitter,
  a tenth of the velocity of \<open>e\<close> on entry); the number of trail particles stays. The
  particle itself then gets velocity \<open>life * origVel * dt\<close>, moves by that velocity, takes
  its life as alpha and loses the explosion decay rate times \<open>dt\<close> of its life.
\<close>

theorem ExplosionParticle_update_order:
  "list_all2 (\<lambda>t t'. if life (TrailParticle_update t dt (vel e) (life e)) \<le> 0
                     then \<exists>r. 0 \<le> r \<and> t' = (TrailParticle_update t dt (vel e) (life e))
                              \<lparr>life := 1, pos := vadd_scalar (pos e) (jitter r),
                               vel := vmul (vel e) (1 / 10)\<rparr>
                     else t' = TrailParticle_update t dt (vel e) (life e))
     (trailParticles e) (trailParticles (fst (ExplosionParticle_update cfg e dt g)))
   \<and> vel (fst (ExplosionParticle_update cfg e dt g)) = vmul (smul (life e) (origVel e)) dt
   \<and> pos (fst (ExplosionParticle_update cfg e dt g))
       = vadd (pos e) (vel (fst (ExplosionParticle_update cfg e dt g)))
   \<and> color (fst (ExplosionParticle_update cfg e dt g)) = set_w (color e) (life e)
   \<and> life (fst (ExplosionParticle_update cfg e dt g))
       = life e - EXPLOSION_LIFE_DECREASE_RATE cfg * dt"
  using update_explosion_trails_rel [of dt e "trailParticles e" g]
  by (simp add: ExplosionParticle_update_def Let_def split_beta)

subsection \<open>Respawning\<close>


lemma vadd_scalar_sel:
  "vec_x (vadd_scalar v s) = vec_x v + s"
  "vec_y (vadd_scalar v s) = vec_y v + s"
  "vec_z (vadd_scalar v s) = vec_z v + s"
  by (cases v; simp)+

lemma velocity_factor_range:
  "3 / 4 \<le> rand_unit (fst (rand g)) * (1 / 4) + 3 / 4
   \<and> rand_unit (fst (rand g)) * (1 / 4) + 3 / 4 \<le> 1"
  using rand_unit_range [of "fst (rand g)"] rand_range [of g] by simp

text \<open>The two components of \<open>rand\<close>: the value drawn and the generator left.\<close>

lemma rand_fst: "fst (rand g) = int (shd g mod Suc RAND_MAX)"
  by (simp add: rand_def)

lemma rand_snd: "snd (rand g) = stl g"
  by (simp add: rand_def)

text \<open>
  Claim C4. The rocket's rule, \<^verbatim>\<open>Firework::respawnParticle\<close>, draws twice: life 1; the
  firework's position plus the scalar \<open>((r % 100) - 50) / 10\<close> of the first draw \<open>r\<close>,
  the same on all three axes, which lies between -5 and 4.9; the firework's velocity times
  the factor \<open>r' / RAND_MAX * 0.25 + 0.75\<close> of the second draw \<open>r'\<close>, which lies between
  0.75 and 1. The explosion particle's rule, \<^verbatim>\<open>ExplosionParticle::respawnTrailParticle\<close>,
  draws once: life 1; the explosion particle's position plus the scalar of the same
  formula in its draw; the explosion particle's velocity times 0.1. On every axis the new
  position is within 5 of the owner's. A draw is the next element of the stream, reduced
  into the range of \<^verbatim>\<open>rand()\<close>; how the draws are distributed is not part of the statement.
\<close>

theorem respawn_rules:
  "life (fst (respawnParticle fw p g)) = 1
   \<and> pos (fst (respawnParticle fw p g))
       = vadd_scalar (fw_pos fw) (real_of_int (int (shd g mod Suc RAND_MAX) smod 100 - 50) / 10)
   \<and> vel (fst (respawnParticle fw p g))
       = vmul (fw_vel fw)
           (real_of_int (int (shd (stl g) mod Suc RAND_MAX)) / real RAND_MAX * (1 / 4) + 3 / 4)
   \<and> snd (respawnParticle fw p g) = stl (stl g)
   \<and> 3 / 4 \<le> real_of_int (int (shd (stl g) mod Suc RAND_MAX)) / real RAND_MAX * (1 / 4) + 3 / 4
   \<and> real_of_int (int (shd (stl g) mod Suc RAND_MAX)) / real RAND_MAX * (1 / 4) + 3 / 4 \<le> 1
   \<and> life (fst (respawnTrailParticle e p g)) = 1
   \<and> pos (fst (respawnTrailParticle e p g))
       = vadd_scalar (pos e) (real_of_int (int (shd g mod Suc RAND_MAX) smod 100 - 50) / 10)
   \<and> vel (fst (respawnTrailParticle e p g)) = vmul (vel e) (1 / 10)
   \<and> snd (respawnTrailParticle e p g) = stl g
   \<and> - 5 \<le> real_of_int (int (shd g mod Suc RAND_MAX) smod 100 - 50) / 10
   \<and> real_of_int (int (shd g mod Suc RAND_MAX) smod 100 - 50) / 10 \<le> 49 / 10
   \<and> \<bar>vec_x (pos (fst (respawnParticle fw p g))) - vec_x (fw_pos fw)\<bar> \<le> 5
   \<and> \<bar>vec_y (pos (fst (respawnParticle fw p g))) - vec_y (fw_pos fw)\<bar> \<le> 5
   \<and> \<bar>vec_z (pos (fst (respawnParticle fw p g))) - vec_z (fw_pos fw)\<bar> \<le> 5
   \<and> \<bar>vec_x (pos (fst (respawnTrailParticle e p g))) - vec_x (pos e)\<bar> \<le> 5
   \<and> \<bar>vec_y (pos (fst (respawnTrailParticle e p g))) - vec_y (pos e)\<bar> \<le> 5
   \<and> \<bar>vec_z (pos (fst (respawnTrailParticle e p g))) - vec_z (pos e)\<bar> \<le> 5"
proof -
  let ?j = "real_of_int (int (shd g mod Suc RAND_MAX) smod 100 - 50) / 10"
  let ?f = "real_of_int (int (shd (stl g) mod Suc RAND_MAX)) / real RAND_MAX * (1 / 4) + 3 / 4"
  have je: "jitter (fst (rand g)) = ?j" by (simp add: jitter_def rand_fst)
  have fe: "rand_unit (fst (rand (snd (rand g)))) * (1 / 4) + 3 / 4 = ?f"
    by (simp add: rand_unit_def rand_fst rand_snd)
  have j: "- 5 \<le> ?j \<and> ?j \<le> 49 / 10"
    using jitter_range [of "fst (rand g)"] rand_range [of g] unfolding je by simp
  then have a: "\<bar>?j\<bar> \<le> 5" by linarith
  have f: "3 / 4 \<le> ?f \<and> ?f \<le> 1"
    using velocity_factor_range [of "snd (rand g)"] unfolding fe by simp
  have rp: "pos (fst (respawnParticle fw p g)) = vadd_scalar (fw_pos fw) ?j"
    "vel (fst (respawnParticle fw p g)) = vmul (fw_vel fw) ?f"
    "life (fst (respawnParticle fw p g)) = 1"
    "snd (respawnParticle fw p g) = stl (stl g)"
    by (simp_all add: respawnParticle_def Let_def split_beta rand_snd rand_fst jitter_def
        rand_unit_def)
  have rt: "pos (fst (respawnTrailParticle e p g)) = vadd_scalar (pos e) ?j"
    "vel (fst (respawnTrailParticle e p g)) = vmul (vel e) (1 / 10)"
    "life (fst (respawnTrailParticle e p g)) = 1"
    "snd (respawnTrailParticle e p g) = stl g"
    by (simp_all add: respawnTrailParticle_def Let_def split_beta rand_snd rand_fst jitter_def)
  show ?thesis
    using j a f by (simp add: rp rt vadd_scalar_sel)
qed


subsection \<open>Fields after a reset and scales of trail particles\<close>

lemma new_rocket_trails_scale:
  "list_all (\<lambda>t. scale t = 1) (fst (new_rocket_trails cfg n fw g))"
  by (induction n arbitrary: g) (simp_all add: Let_def split_beta TrailParticle_new_def)

lemma new_explosion_trails_scale:
  "list_all (\<lambda>t. scale t = 1) (fst (new_explosion_trails cfg n p v c g))"
  by (induction n arbitrary: g) (simp_all add: Let_def split_beta TrailParticle_new_def)

lemma TrailParticle_update_scale: "scale (TrailParticle_update t dt sv sl) = scale t"
  by (simp add: TrailParticle_update_def Let_def)

lemma respawnParticle_scale: "scale (fst (respawnParticle fw t g)) = scale t"
  by (simp add: respawnParticle_def Let_def split_beta)

lemma respawnTrailParticle_scale: "scale (fst (respawnTrailParticle e t g)) = scale t"
  by (simp add: respawnTrailParticle_def Let_def split_beta)

lemma update_rocket_trails_scale:
  "list_all (\<lambda>t. scale t = 1) ts \<Longrightarrow>
   list_all (\<lambda>t. scale t = 1) (fst (update_rocket_trails fw dt ts g))"
  by (induction ts arbitrary: g)
     (simp_all add: Let_def split_beta TrailParticle_update_scale respawnParticle_scale)

lemma update_explosion_trails_scale:
  "list_all (\<lambda>t. scale t = 1) ts \<Longrightarrow>
   list_all (\<lambda>t. scale t = 1) (fst (update_explosion_trails e dt ts g))"
  by (induction ts arbitrary: g)
     (simp_all add: Let_def split_beta TrailParticle_update_scale respawnTrailParticle_scale)

lemma ExplosionParticle_update_fields:
  "trailParticles (fst (ExplosionParticle_update cfg e dt g))
     = fst (update_explosion_trails e dt (trailParticles e) g)"
  "life (fst (ExplosionParticle_update cfg e dt g)) = life e - EXPLOSION_LIFE_DECREASE_RATE cfg * dt"
  "scale (fst (ExplosionParticle_update cfg e dt g)) = scale e"
  by (simp_all add: ExplosionParticle_update_def Let_def split_beta)

lemma randomiseColor_fields:
  "fw_pos (fst (randomiseColor fw g)) = fw_pos fw"
  "fw_vel (fst (randomiseColor fw g)) = fw_vel fw"
  "fw_scale (fst (randomiseColor fw g)) = fw_scale fw"
  "exploded (fst (randomiseColor fw g)) = exploded fw"
  "numParticles (fst (randomiseColor fw g)) = numParticles fw"
  "fw_trailParticles (fst (randomiseColor fw g)) = fw_trailParticles fw"
  "explosionParticles (fst (randomiseColor fw g)) = explosionParticles fw"
  by (simp_all add: randomiseColor_def Let_def split_beta)

lemma new_rocket_trails_length: "length (fst (new_rocket_trails cfg n fw g)) = n"
  by (induction n arbitrary: g) (simp_all add: Let_def split_beta)

lemma new_rocket_trails_life:
  "list_all (\<lambda>t. life t = 1) (fst (new_rocket_trails cfg n fw g))"
  by (induction n arbitrary: g) (simp_all add: Let_def split_beta TrailParticle_new_def)

lemma reset_exploded: "exploded (fst (reset cfg fw g)) = False"
  by (simp add: reset_def Let_def split_beta randomiseColor_fields)

lemma reset_explosionParticles: "explosionParticles (fst (reset cfg fw g)) = []"
  by (simp add: reset_def Let_def split_beta randomiseColor_fields)

lemma reset_trailParticles:
  "\<exists>fw' g'. fw_trailParticles (fst (reset cfg fw g))
      = fst (new_rocket_trails cfg (nat (NUM_TRAIL_PARTICLES cfg)) fw' g')"
  by (simp add: reset_def Let_def split_beta randomiseColor_fields) blast

lemma reset_numParticles:
  "numParticles (fst (reset cfg fw g))
     = fst (rand g) smod (MAX_PARTICLES cfg - MIN_PARTICLES cfg) + MIN_PARTICLES cfg"
  by (simp add: reset_def Let_def split_beta randomiseColor_fields)

lemma reset_fw_scale:
  "fw_scale (fst (reset cfg fw g))
     = real_of_int (fst (rand (snd (rand (snd (rand (snd (rand (snd (rand g)))))))))
                      smod SCALE_RANGE cfg) + MIN_SCALE cfg"
  by (simp add: reset_def Let_def split_beta randomiseColor_fields)

lemma reset_fw_vel:
  "fw_vel (fst (reset cfg fw g))
     = Vec3 (real_of_int (fst (rand (snd (rand (snd (rand g)))))
                            smod (MAX_INIT_X_VEL cfg - MIN_INIT_X_VEL cfg) + MIN_INIT_X_VEL cfg))
            (real_of_int (fst (rand (snd (rand (snd (rand (snd (rand g)))))))
                            smod (MAX_INIT_Y_VEL cfg - MIN_INIT_Y_VEL cfg) + MIN_INIT_Y_VEL cfg))
            0"
  by (simp add: reset_def Let_def split_beta randomiseColor_fields)

subsection \<open>The loops of a firework\<close>

lemma update_rocket_trails_length:
  "length (fst (update_rocket_trails fw dt ts g)) = length ts"
  by (induction ts arbitrary: g) (simp_all add: Let_def split_beta)

lemma new_explosion_trails_length:
  "length (fst (new_explosion_trails cfg n p v c g)) = n"
  by (induction n arbitrary: g) (simp_all add: Let_def split_beta)

lemma ExplosionParticle_new_fields:
  "pos (fst (ExplosionParticle_new cfg p v c s g)) = p"
  "vel (fst (ExplosionParticle_new cfg p v c s g)) = v"
  "color (fst (ExplosionParticle_new cfg p v c s g)) = c"
  "life (fst (ExplosionParticle_new cfg p v c s g)) = 1"
  "scale (fst (ExplosionParticle_new cfg p v c s g)) = s"
  "origVel (fst (ExplosionParticle_new cfg p v c s g)) = v"
  "trailParticles (fst (ExplosionParticle_new cfg p v c s g))
     = fst (new_explosion_trails cfg (nat (NUM_TRAIL_PARTICLES cfg)) p v c g)"
  by (simp_all add: ExplosionParticle_new_def Let_def split_beta)

lemma new_explosion_particles_length:
  "length (fst (new_explosion_particles cfg n theta fw g)) = n"
  by (induction n arbitrary: g) (simp_all add: Let_def split_beta)

lemma new_explosion_particles_each:
  "list_all (\<lambda>e. pos e = fw_pos fw \<and> color e = fw_color fw \<and> life e = 1 \<and> origVel e = vel e
                \<and> length (trailParticles e) = nat (NUM_TRAIL_PARTICLES cfg)
                \<and> list_all (\<lambda>t. scale t = 1) (trailParticles e)
                \<and> (\<exists>r1 r2 r3. 0 \<le> r1 \<and> 0 \<le> r2 \<and> 0 \<le> r3
                     \<and> vel e = vmul (Vec3 (cos (real_of_int (r1 smod NUM_OUTER_CIRCLE_VERTICES cfg) * theta))
                                         (sin (real_of_int (r1 smod NUM_OUTER_CIRCLE_VERTICES cfg) * theta)) 0)
                                   (real_of_int (r2 smod (MAX_MAGNITUDE cfg - MIN_MAGNITUDE cfg)
                                                   + MIN_MAGNITUDE cfg))
                     \<and> scale e = real_of_int (r3 smod SCALE_RANGE cfg) + MIN_SCALE cfg))
     (fst (new_explosion_particles cfg n theta fw g))"
proof (induction n arbitrary: g)
  case 0
  then show ?case by simp
next
  case (Suc n)
  have r: "0 \<le> fst (rand g)" "0 \<le> fst (rand (snd (rand g)))"
    "0 \<le> fst (rand (snd (rand (snd (rand g)))))"
    using rand_range by simp_all
  show ?case
    using Suc r
    by (auto simp: Let_def split_beta ExplosionParticle_new_fields new_explosion_trails_length
        new_explosion_trails_scale)
qed

text \<open>
  The loop over the explosion particles either finishes without a reset, and then every
  particle has been updated in place, or some particle's life reached zero, and then the
  firework is the result of a \<^verbatim>\<open>reset()\<close>. Which of the two happens is decided by the
  lives on entry.
\<close>

lemma update_stale_explosions_shape:
  "fst (update_stale_explosions cfg dt fw ps g) = fw
   \<or> (\<exists>fw0 g0. fst (update_stale_explosions cfg dt fw ps g) = fst (reset cfg fw0 g0))"
proof (induction ps arbitrary: fw g)
  case Nil
  then show ?case by simp
next
  case (Cons p ps)
  show ?case
  proof (cases "life (fst (ExplosionParticle_update cfg p dt g)) \<le> 0")
    case True
    then show ?thesis
      using Cons [of "fst (reset cfg fw (snd (ExplosionParticle_update cfg p dt g)))"
                     "snd (reset cfg fw (snd (ExplosionParticle_update cfg p dt g)))"]
      by (auto simp: Let_def split_beta)
  next
    case False
    then show ?thesis
      using Cons [of fw "snd (ExplosionParticle_update cfg p dt g)"]
      by (simp add: Let_def split_beta)
  qed
qed

lemma update_explosions_shape:
  "(list_all (\<lambda>p. \<not> life p - EXPLOSION_LIFE_DECREASE_RATE cfg * dt \<le> 0) todo
      \<and> (\<exists>todo'. fst (update_explosions cfg dt fw done todo g)
                     = fw\<lparr>explosionParticles := done @ todo'\<rparr>
            \<and> list_all2 (\<lambda>p p'. \<exists>g'. p' = fst (ExplosionParticle_update cfg p dt g')) todo todo'))
   \<or> (\<not> list_all (\<lambda>p. \<not> life p - EXPLOSION_LIFE_DECREASE_RATE cfg * dt \<le> 0) todo
      \<and> (\<exists>fw0 g0. fst (update_explosions cfg dt fw done todo g) = fst (reset cfg fw0 g0)))"
proof (induction todo arbitrary: "done" g)
  case Nil
  then show ?case by simp
next
  case (Cons p ps)
  show ?case
  proof (cases "life p - EXPLOSION_LIFE_DECREASE_RATE cfg * dt \<le> 0")
    case True
    then have l: "life (fst (ExplosionParticle_update cfg p dt g)) \<le> 0"
      by (simp add: ExplosionParticle_update_fields)
    show ?thesis
      using True l
        update_stale_explosions_shape [of cfg dt
          "fst (reset cfg (fw\<lparr>explosionParticles := done @ fst (ExplosionParticle_update cfg p dt g) # ps\<rparr>)
                  (snd (ExplosionParticle_update cfg p dt g)))"
          "map (\<lambda>q. q\<lparr>trailParticles := []\<rparr>) ps"
          "snd (reset cfg (fw\<lparr>explosionParticles := done @ fst (ExplosionParticle_update cfg p dt g) # ps\<rparr>)
                  (snd (ExplosionParticle_update cfg p dt g)))"]
      by (auto simp: Let_def split_beta)
  next
    case False
    then have l: "\<not> life (fst (ExplosionParticle_update cfg p dt g)) \<le> 0"
      by (simp add: ExplosionParticle_update_fields)
    show ?thesis
      using False l Cons [of "done @ [fst (ExplosionParticle_update cfg p dt g)]"
                               "snd (ExplosionParticle_update cfg p dt g)"]
      by (auto simp: Let_def split_beta)
  qed
qed

lemma vadd_sel:
  "vec_x (vadd a b) = vec_x a + vec_x b"
  "vec_y (vadd a b) = vec_y a + vec_y b"
  "vec_z (vadd a b) = vec_z a + vec_z b"
  by (cases a; cases b; simp)+

lemma vmul_sel:
  "vec_x (vmul a s) = vec_x a * s"
  "vec_y (vmul a s) = vec_y a * s"
  "vec_z (vmul a s) = vec_z a * s"
  by (cases a; simp)+

text \<open>One tick of a firework whose rocket has not exploded.\<close>

lemma Firework_update_rising:
  assumes "\<not> exploded fw"
  shows "fw_vel (fst (Firework_update cfg fw dt g)) = vadd (fw_vel fw) (vmul (GRAVITY cfg) dt)"
    and "fw_pos (fst (Firework_update cfg fw dt g))
           = vadd (fw_pos fw) (vmul (vadd (fw_vel fw) (vmul (GRAVITY cfg) dt)) dt)"
    and "fw_color (fst (Firework_update cfg fw dt g)) = fw_color fw"
    and "fw_scale (fst (Firework_update cfg fw dt g)) = fw_scale fw"
    and "numParticles (fst (Firework_update cfg fw dt g)) = numParticles fw"
    and "exploded (fst (Firework_update cfg fw dt g))
           \<longleftrightarrow> vec_y (fw_vel fw) + vec_y (GRAVITY cfg) * dt < 0"
  using assms by (simp_all add: Firework_update_def Let_def split_beta vadd_sel vmul_sel)

lemma Firework_update_rising_on:
  assumes "\<not> exploded fw" "\<not> vec_y (fw_vel fw) + vec_y (GRAVITY cfg) * dt < 0"
  shows "explosionParticles (fst (Firework_update cfg fw dt g)) = explosionParticles fw"
    and "\<exists>fw' g'. fw_trailParticles (fst (Firework_update cfg fw dt g))
           = fst (update_rocket_trails fw' dt (fw_trailParticles fw) g')"
  using assms
  by (auto simp add: Firework_update_def Let_def split_beta vadd_sel vmul_sel)

lemma Firework_update_explode:
  assumes "\<not> exploded fw" "vec_y (fw_vel fw) + vec_y (GRAVITY cfg) * dt < 0"
  shows "fw_trailParticles (fst (Firework_update cfg fw dt g)) = []"
    and "\<exists>g'. explosionParticles (fst (Firework_update cfg fw dt g))
           = explosionParticles fw
             @ fst (new_explosion_particles cfg (nat (numParticles fw))
                      (pi * 2 / real_of_int (NUM_OUTER_CIRCLE_VERTICES cfg))
                      (fst (Firework_update cfg fw dt g)\<lparr>explosionParticles := explosionParticles fw\<rparr>) g')"
  using assms
  by (auto simp add: Firework_update_def Let_def split_beta vadd_sel vmul_sel)

lemma smod_nonneg_any: "0 \<le> r \<Longrightarrow> 0 \<le> r smod d" for r d :: int
  by (cases "d = 0") (simp_all add: smod_of_nonneg)

subsection \<open>The draws behind each explosion particle\<close>

text \<open>
  Creating one explosion particle takes three draws, for the angle, the magnitude and the
  scale, and then one draw for each of its trail particles. So the particle with index
  \<open>i\<close> is built from the three elements of the stream that start at position
  \<open>i * (3 + NUM_TRAIL_PARTICLES)\<close>.
\<close>

lemma new_explosion_trails_rng:
  "snd (new_explosion_trails cfg n p v c g) = sdrop n g"
  by (induction n arbitrary: g) (simp_all add: Let_def split_beta rand_snd)

lemma ExplosionParticle_new_rng:
  "snd (ExplosionParticle_new cfg p v c s g) = sdrop (nat (NUM_TRAIL_PARTICLES cfg)) g"
  by (simp add: ExplosionParticle_new_def Let_def split_beta new_explosion_trails_rng)

lemma new_explosion_particles_Suc_nth:
  "fst (new_explosion_particles cfg (Suc n) theta fw g) ! Suc j
     = fst (new_explosion_particles cfg n theta fw
              (sdrop (3 + nat (NUM_TRAIL_PARTICLES cfg)) g)) ! j"
proof -
  have s3: "stl (stl (stl g)) = sdrop 3 g" by (simp add: numeral_3_eq_3)
  show ?thesis
    by (simp add: Let_def split_beta rand_snd ExplosionParticle_new_rng s3 del: sdrop.simps)
qed

lemma new_explosion_particles_0_nth:
  "vel (fst (new_explosion_particles cfg (Suc n) theta fw g) ! 0)
      = vmul (Vec3 (cos (real_of_int (fst (rand g) smod NUM_OUTER_CIRCLE_VERTICES cfg) * theta))
                   (sin (real_of_int (fst (rand g) smod NUM_OUTER_CIRCLE_VERTICES cfg) * theta))
                   0)
             (real_of_int (fst (rand (stl g))
                             smod (MAX_MAGNITUDE cfg - MIN_MAGNITUDE cfg) + MIN_MAGNITUDE cfg))
   \<and> scale (fst (new_explosion_particles cfg (Suc n) theta fw g) ! 0)
      = real_of_int (fst (rand (stl (stl g))) smod SCALE_RANGE cfg) + MIN_SCALE cfg"
  by (simp add: Let_def split_beta ExplosionParticle_new_fields rand_snd)

lemma new_explosion_particles_nth:
  assumes "i < n"
  shows "vel (fst (new_explosion_particles cfg n theta fw g) ! i)
      = vmul (Vec3 (cos (real_of_int (fst (rand (sdrop (i * (3 + nat (NUM_TRAIL_PARTICLES cfg))) g))
                                        smod NUM_OUTER_CIRCLE_VERTICES cfg) * theta))
                   (sin (real_of_int (fst (rand (sdrop (i * (3 + nat (NUM_TRAIL_PARTICLES cfg))) g))
                                        smod NUM_OUTER_CIRCLE_VERTICES cfg) * theta))
                   0)
             (real_of_int (fst (rand (stl (sdrop (i * (3 + nat (NUM_TRAIL_PARTICLES cfg))) g)))
                             smod (MAX_MAGNITUDE cfg - MIN_MAGNITUDE cfg) + MIN_MAGNITUDE cfg))
    \<and> scale (fst (new_explosion_particles cfg n theta fw g) ! i)
      = real_of_int (fst (rand (stl (stl (sdrop (i * (3 + nat (NUM_TRAIL_PARTICLES cfg))) g))))
                       smod SCALE_RANGE cfg) + MIN_SCALE cfg"
  using assms
proof (induction n arbitrary: i g)
  case 0
  then show ?case by simp
next
  case (Suc n)
  show ?case
  proof (cases i)
    case 0
    show ?thesis
      unfolding 0 using new_explosion_particles_0_nth [of cfg n theta fw g] by simp
  next
    case (Suc j)
    then have "j < n" using Suc.prems by simp
    have d: "sdrop (j * (3 + nat (NUM_TRAIL_PARTICLES cfg)))
               (sdrop (3 + nat (NUM_TRAIL_PARTICLES cfg)) g)
             = sdrop (Suc j * (3 + nat (NUM_TRAIL_PARTICLES cfg))) g"
      by (simp only: sdrop_add mult_Suc)
    show ?thesis
      unfolding Suc new_explosion_particles_Suc_nth
      using Suc.IH [OF \<open>j < n\<close>, of "sdrop (3 + nat (NUM_TRAIL_PARTICLES cfg)) g"]
      unfolding d by blast
  qed
qed

lemma Firework_update_explode_exact:
  assumes "\<not> exploded fw" "vec_y (fw_vel fw) + vec_y (GRAVITY cfg) * dt < 0"
  shows "explosionParticles (fst (Firework_update cfg fw dt g))
           = explosionParticles fw
             @ fst (new_explosion_particles cfg (nat (numParticles fw))
                      (pi * 2 / real_of_int (NUM_OUTER_CIRCLE_VERTICES cfg))
                      (fst (Firework_update cfg fw dt g)\<lparr>explosionParticles := explosionParticles fw\<rparr>)
                      (snd (update_rocket_trails
                              (fw\<lparr>fw_vel := vadd (fw_vel fw) (vmul (GRAVITY cfg) dt),
                                  fw_pos := vadd (fw_pos fw)
                                              (vmul (vadd (fw_vel fw) (vmul (GRAVITY cfg) dt)) dt)\<rparr>)
                              dt (fw_trailParticles fw) g)))"
  using assms
  by (simp add: Firework_update_def Let_def split_beta vadd_sel vmul_sel)

lemma Firework_update_explode_draws:
  assumes "\<not> exploded fw" "vec_y (fw_vel fw) + vec_y (GRAVITY cfg) * dt < 0"
    and "i < nat (numParticles fw)"
    and "d = snd (update_rocket_trails
                    (fw\<lparr>fw_vel := vadd (fw_vel fw) (vmul (GRAVITY cfg) dt),
                        fw_pos := vadd (fw_pos fw)
                                    (vmul (vadd (fw_vel fw) (vmul (GRAVITY cfg) dt)) dt)\<rparr>)
                    dt (fw_trailParticles fw) g)"
  shows "vel (explosionParticles (fst (Firework_update cfg fw dt g))
                ! (length (explosionParticles fw) + i))
      = vmul (Vec3 (cos (real_of_int (int (d !! (i * (3 + nat (NUM_TRAIL_PARTICLES cfg)))
                                            mod Suc RAND_MAX)
                                        smod NUM_OUTER_CIRCLE_VERTICES cfg)
                          * (pi * 2 / real_of_int (NUM_OUTER_CIRCLE_VERTICES cfg))))
                   (sin (real_of_int (int (d !! (i * (3 + nat (NUM_TRAIL_PARTICLES cfg)))
                                            mod Suc RAND_MAX)
                                        smod NUM_OUTER_CIRCLE_VERTICES cfg)
                          * (pi * 2 / real_of_int (NUM_OUTER_CIRCLE_VERTICES cfg))))
                   0)
             (real_of_int (int (d !! Suc (i * (3 + nat (NUM_TRAIL_PARTICLES cfg)))
                                  mod Suc RAND_MAX)
                             smod (MAX_MAGNITUDE cfg - MIN_MAGNITUDE cfg) + MIN_MAGNITUDE cfg))
    \<and> scale (explosionParticles (fst (Firework_update cfg fw dt g))
                ! (length (explosionParticles fw) + i))
      = real_of_int (int (d !! Suc (Suc (i * (3 + nat (NUM_TRAIL_PARTICLES cfg))))
                            mod Suc RAND_MAX)
                       smod SCALE_RANGE cfg) + MIN_SCALE cfg"
proof -
  have e: "explosionParticles (fst (Firework_update cfg fw dt g))
           = explosionParticles fw
             @ fst (new_explosion_particles cfg (nat (numParticles fw))
                      (pi * 2 / real_of_int (NUM_OUTER_CIRCLE_VERTICES cfg))
                      (fst (Firework_update cfg fw dt g)\<lparr>explosionParticles := explosionParticles fw\<rparr>)
                      d)"
    unfolding assms(4) using assms(1,2) by (rule Firework_update_explode_exact)
  show ?thesis
    unfolding e nth_append_length_plus
    using new_explosion_particles_nth [OF assms(3), of cfg
        "pi * 2 / real_of_int (NUM_OUTER_CIRCLE_VERTICES cfg)"
        "fst (Firework_update cfg fw dt g)\<lparr>explosionParticles := explosionParticles fw\<rparr>" d]
    by (simp add: rand_fst)
qed

subsection \<open>From rising to exploded\<close>

text \<open>
  Claim C5. Let a firework that has not exploded be updated, under a configuration with
  a positive arc-vertex count, a magnitude range with minimum below maximum and a
  positive scale range. The firework is exploded afterwards exactly when the vertical
  component of the rocket velocity, after this tick's gravity, is negative. In that case
  the rocket's trail is empty and \<open>numParticles\<close> explosion particles have been appended,
  each at the rocket's current position, with the firework's colour, with a scale
  \<open>MIN_SCALE + s\<close> for a sampled \<open>s\<close> below \<open>SCALE_RANGE\<close>, and with a velocity that is
  the unit vector at angle \<open>k * (2 pi / NUM_OUTER_CIRCLE_VERTICES)\<close>, for a sampled
  \<open>k\<close> below \<open>NUM_OUTER_CIRCLE_VERTICES\<close>, times a sampled integer magnitude from
  \<open>MIN_MAGNITUDE\<close> up to but not including \<open>MAX_MAGNITUDE\<close>. The samples are fresh
  draws of each particle: with \<open>d\<close> the generator that the rocket's trail loop leaves, the
  new particle with index \<open>i\<close> takes \<open>k\<close>, the magnitude and \<open>s\<close> from the three elements
  of \<open>d\<close> at position \<open>i * (3 + NUM_TRAIL_PARTICLES)\<close> and the two after it, each reduced
  into the range of \<^verbatim>\<open>rand()\<close> and then by \<^verbatim>\<open>%\<close> as the code writes it. How the draws are
  distributed is not part of the statement.
\<close>

theorem rising_to_exploded:
  assumes "\<not> exploded fw"
    and "0 < NUM_OUTER_CIRCLE_VERTICES cfg"
    and "MIN_MAGNITUDE cfg < MAX_MAGNITUDE cfg"
    and "0 < SCALE_RANGE cfg"
  shows "(exploded (fst (Firework_update cfg fw dt g))
           \<longleftrightarrow> vec_y (fw_vel (fst (Firework_update cfg fw dt g))) < 0)
    \<and> fw_vel (fst (Firework_update cfg fw dt g)) = vadd (fw_vel fw) (vmul (GRAVITY cfg) dt)
    \<and> fw_pos (fst (Firework_update cfg fw dt g))
        = vadd (fw_pos fw) (vmul (fw_vel (fst (Firework_update cfg fw dt g))) dt)
    \<and> (vec_y (fw_vel (fst (Firework_update cfg fw dt g))) < 0 \<longrightarrow>
         fw_trailParticles (fst (Firework_update cfg fw dt g)) = []
         \<and> (\<exists>es. explosionParticles (fst (Firework_update cfg fw dt g)) = explosionParticles fw @ es
               \<and> int (length es) = max 0 (numParticles fw)
               \<and> list_all (\<lambda>e. pos e = fw_pos (fst (Firework_update cfg fw dt g))
                              \<and> color e = fw_color fw
                              \<and> (\<exists>s. 0 \<le> s \<and> s < SCALE_RANGE cfg
                                     \<and> scale e = real_of_int s + MIN_SCALE cfg)
                              \<and> (\<exists>k m. 0 \<le> k \<and> k < NUM_OUTER_CIRCLE_VERTICES cfg
                                     \<and> MIN_MAGNITUDE cfg \<le> m \<and> m < MAX_MAGNITUDE cfg
                                     \<and> vel e = vmul
                                          (Vec3 (cos (real_of_int k * (pi * 2 / real_of_int (NUM_OUTER_CIRCLE_VERTICES cfg))))
                                                (sin (real_of_int k * (pi * 2 / real_of_int (NUM_OUTER_CIRCLE_VERTICES cfg))))
                                                0)
                                          (real_of_int m)))
                     es))
    \<and> (vec_y (fw_vel (fst (Firework_update cfg fw dt g))) < 0 \<longrightarrow>
         (\<exists>d. d = snd (update_rocket_trails
                         (fw\<lparr>fw_vel := vadd (fw_vel fw) (vmul (GRAVITY cfg) dt),
                             fw_pos := vadd (fw_pos fw)
                                         (vmul (vadd (fw_vel fw) (vmul (GRAVITY cfg) dt)) dt)\<rparr>)
                         dt (fw_trailParticles fw) g)
            \<and> (\<forall>i. i < nat (numParticles fw) \<longrightarrow>
                  vel (explosionParticles (fst (Firework_update cfg fw dt g)) ! (length (explosionParticles fw) + i))
                    = vmul (Vec3 (cos (real_of_int (int (d !! (i * (3 + nat (NUM_TRAIL_PARTICLES cfg)))
                                                          mod Suc RAND_MAX)
                                                      smod NUM_OUTER_CIRCLE_VERTICES cfg)
                                        * (pi * 2 / real_of_int (NUM_OUTER_CIRCLE_VERTICES cfg))))
                                 (sin (real_of_int (int (d !! (i * (3 + nat (NUM_TRAIL_PARTICLES cfg)))
                                                          mod Suc RAND_MAX)
                                                      smod NUM_OUTER_CIRCLE_VERTICES cfg)
                                        * (pi * 2 / real_of_int (NUM_OUTER_CIRCLE_VERTICES cfg))))
                                 0)
                           (real_of_int (int (d !! Suc (i * (3 + nat (NUM_TRAIL_PARTICLES cfg)))
                                                mod Suc RAND_MAX)
                                           smod (MAX_MAGNITUDE cfg - MIN_MAGNITUDE cfg)
                                         + MIN_MAGNITUDE cfg))
                  \<and> scale (explosionParticles (fst (Firework_update cfg fw dt g)) ! (length (explosionParticles fw) + i))
                    = real_of_int (int (d !! Suc (Suc (i * (3 + nat (NUM_TRAIL_PARTICLES cfg))))
                                          mod Suc RAND_MAX)
                                     smod SCALE_RANGE cfg) + MIN_SCALE cfg)))"
proof -
  let ?fw' = "fst (Firework_update cfg fw dt g)"
  let ?theta = "pi * 2 / real_of_int (NUM_OUTER_CIRCLE_VERTICES cfg)"
  have v: "fw_vel ?fw' = vadd (fw_vel fw) (vmul (GRAVITY cfg) dt)"
    using assms(1) by (rule Firework_update_rising)
  have vy: "vec_y (fw_vel ?fw') = vec_y (fw_vel fw) + vec_y (GRAVITY cfg) * dt"
    by (simp add: v vadd_sel vmul_sel)
  have p: "fw_pos ?fw' = vadd (fw_pos fw) (vmul (fw_vel ?fw') dt)"
    using Firework_update_rising(2) [OF assms(1)] v by simp
  have e: "exploded ?fw' \<longleftrightarrow> vec_y (fw_vel ?fw') < 0"
    using Firework_update_rising(6) [OF assms(1)] vy by simp
  have c: "fw_color ?fw' = fw_color fw"
    using assms(1) by (rule Firework_update_rising)
  have x: "fw_trailParticles ?fw' = []
         \<and> (\<exists>es. explosionParticles ?fw' = explosionParticles fw @ es
               \<and> int (length es) = max 0 (numParticles fw)
               \<and> list_all (\<lambda>e. pos e = fw_pos ?fw'
                              \<and> color e = fw_color fw
                              \<and> (\<exists>s. 0 \<le> s \<and> s < SCALE_RANGE cfg
                                     \<and> scale e = real_of_int s + MIN_SCALE cfg)
                              \<and> (\<exists>k m. 0 \<le> k \<and> k < NUM_OUTER_CIRCLE_VERTICES cfg
                                     \<and> MIN_MAGNITUDE cfg \<le> m \<and> m < MAX_MAGNITUDE cfg
                                     \<and> vel e = vmul (Vec3 (cos (real_of_int k * ?theta))
                                                          (sin (real_of_int k * ?theta)) 0)
                                                    (real_of_int m)))
                     es)"
    if neg: "vec_y (fw_vel ?fw') < 0"
  proof -
    have n: "vec_y (fw_vel fw) + vec_y (GRAVITY cfg) * dt < 0" using neg vy by simp
    obtain g' where es: "explosionParticles ?fw'
        = explosionParticles fw
          @ fst (new_explosion_particles cfg (nat (numParticles fw)) ?theta
                   (?fw'\<lparr>explosionParticles := explosionParticles fw\<rparr>) g')"
      using Firework_update_explode(2) [OF assms(1) n] by blast
    let ?es = "fst (new_explosion_particles cfg (nat (numParticles fw)) ?theta
                   (?fw'\<lparr>explosionParticles := explosionParticles fw\<rparr>) g')"
    have len: "int (length ?es) = max 0 (numParticles fw)"
      by (simp add: new_explosion_particles_length)
    have each: "list_all (\<lambda>e. pos e = fw_pos ?fw'
                              \<and> color e = fw_color fw
                              \<and> (\<exists>s. 0 \<le> s \<and> s < SCALE_RANGE cfg
                                     \<and> scale e = real_of_int s + MIN_SCALE cfg)
                              \<and> (\<exists>k m. 0 \<le> k \<and> k < NUM_OUTER_CIRCLE_VERTICES cfg
                                     \<and> MIN_MAGNITUDE cfg \<le> m \<and> m < MAX_MAGNITUDE cfg
                                     \<and> vel e = vmul (Vec3 (cos (real_of_int k * ?theta))
                                                          (sin (real_of_int k * ?theta)) 0)
                                                    (real_of_int m))) ?es"
    proof (rule list.pred_mono_strong [OF new_explosion_particles_each])
      fix e
      assume "pos e = fw_pos (?fw'\<lparr>explosionParticles := explosionParticles fw\<rparr>)
          \<and> color e = fw_color (?fw'\<lparr>explosionParticles := explosionParticles fw\<rparr>)
          \<and> life e = 1 \<and> origVel e = vel e
          \<and> length (trailParticles e) = nat (NUM_TRAIL_PARTICLES cfg)
          \<and> list_all (\<lambda>t. scale t = 1) (trailParticles e)
          \<and> (\<exists>r1 r2 r3. 0 \<le> r1 \<and> 0 \<le> r2 \<and> 0 \<le> r3
               \<and> vel e = vmul (Vec3 (cos (real_of_int (r1 smod NUM_OUTER_CIRCLE_VERTICES cfg) * ?theta))
                                   (sin (real_of_int (r1 smod NUM_OUTER_CIRCLE_VERTICES cfg) * ?theta)) 0)
                             (real_of_int (r2 smod (MAX_MAGNITUDE cfg - MIN_MAGNITUDE cfg)
                                             + MIN_MAGNITUDE cfg))
               \<and> scale e = real_of_int (r3 smod SCALE_RANGE cfg) + MIN_SCALE cfg)"
      then obtain r1 r2 r3 where h:
        "pos e = fw_pos ?fw'" "color e = fw_color ?fw'"
        "0 \<le> r1" "0 \<le> r2" "0 \<le> r3"
        "vel e = vmul (Vec3 (cos (real_of_int (r1 smod NUM_OUTER_CIRCLE_VERTICES cfg) * ?theta))
                            (sin (real_of_int (r1 smod NUM_OUTER_CIRCLE_VERTICES cfg) * ?theta)) 0)
                      (real_of_int (r2 smod (MAX_MAGNITUDE cfg - MIN_MAGNITUDE cfg)
                                      + MIN_MAGNITUDE cfg))"
        "scale e = real_of_int (r3 smod SCALE_RANGE cfg) + MIN_SCALE cfg"
        by auto
      have k: "0 \<le> r1 smod NUM_OUTER_CIRCLE_VERTICES cfg
               \<and> r1 smod NUM_OUTER_CIRCLE_VERTICES cfg < NUM_OUTER_CIRCLE_VERTICES cfg"
        using h(3) assms(2) by (rule smod_nonneg)
      have m0: "0 \<le> r2 smod (MAX_MAGNITUDE cfg - MIN_MAGNITUDE cfg)
               \<and> r2 smod (MAX_MAGNITUDE cfg - MIN_MAGNITUDE cfg) < MAX_MAGNITUDE cfg - MIN_MAGNITUDE cfg"
        using h(4) assms(3) by (simp add: smod_nonneg)
      have sc: "0 \<le> r3 smod SCALE_RANGE cfg \<and> r3 smod SCALE_RANGE cfg < SCALE_RANGE cfg"
        using h(5) assms(4) by (rule smod_nonneg)
      have m: "MIN_MAGNITUDE cfg \<le> r2 smod (MAX_MAGNITUDE cfg - MIN_MAGNITUDE cfg) + MIN_MAGNITUDE cfg
            \<and> r2 smod (MAX_MAGNITUDE cfg - MIN_MAGNITUDE cfg) + MIN_MAGNITUDE cfg < MAX_MAGNITUDE cfg"
        using m0 by linarith
      show "pos e = fw_pos ?fw'
            \<and> color e = fw_color fw
            \<and> (\<exists>s. 0 \<le> s \<and> s < SCALE_RANGE cfg \<and> scale e = real_of_int s + MIN_SCALE cfg)
            \<and> (\<exists>k m. 0 \<le> k \<and> k < NUM_OUTER_CIRCLE_VERTICES cfg
                   \<and> MIN_MAGNITUDE cfg \<le> m \<and> m < MAX_MAGNITUDE cfg
                   \<and> vel e = vmul (Vec3 (cos (real_of_int k * ?theta))
                                        (sin (real_of_int k * ?theta)) 0)
                                  (real_of_int m))"
      proof -
        have s': "\<exists>s. 0 \<le> s \<and> s < SCALE_RANGE cfg \<and> scale e = real_of_int s + MIN_SCALE cfg"
          using sc h(7) by (intro exI [of _ "r3 smod SCALE_RANGE cfg"]) simp
        have km: "\<exists>k m. 0 \<le> k \<and> k < NUM_OUTER_CIRCLE_VERTICES cfg
                   \<and> MIN_MAGNITUDE cfg \<le> m \<and> m < MAX_MAGNITUDE cfg
                   \<and> vel e = vmul (Vec3 (cos (real_of_int k * ?theta))
                                        (sin (real_of_int k * ?theta)) 0)
                                  (real_of_int m)"
          using k m h(6)
          by (intro exI [of _ "r1 smod NUM_OUTER_CIRCLE_VERTICES cfg"]
                exI [of _ "r2 smod (MAX_MAGNITUDE cfg - MIN_MAGNITUDE cfg) + MIN_MAGNITUDE cfg"])
             simp
        show ?thesis using h(1,2) c s' km by simp
      qed
    qed
    show ?thesis
      using Firework_update_explode(1) [OF assms(1) n] es len each by blast
  qed
  have y: "\<exists>d. d = snd (update_rocket_trails
                         (fw\<lparr>fw_vel := vadd (fw_vel fw) (vmul (GRAVITY cfg) dt),
                             fw_pos := vadd (fw_pos fw)
                                         (vmul (vadd (fw_vel fw) (vmul (GRAVITY cfg) dt)) dt)\<rparr>)
                         dt (fw_trailParticles fw) g)
            \<and> (\<forall>i. i < nat (numParticles fw) \<longrightarrow>
                  vel (explosionParticles (fst (Firework_update cfg fw dt g)) ! (length (explosionParticles fw) + i))
                    = vmul (Vec3 (cos (real_of_int (int (d !! (i * (3 + nat (NUM_TRAIL_PARTICLES cfg)))
                                                          mod Suc RAND_MAX)
                                                      smod NUM_OUTER_CIRCLE_VERTICES cfg)
                                        * (pi * 2 / real_of_int (NUM_OUTER_CIRCLE_VERTICES cfg))))
                                 (sin (real_of_int (int (d !! (i * (3 + nat (NUM_TRAIL_PARTICLES cfg)))
                                                          mod Suc RAND_MAX)
                                                      smod NUM_OUTER_CIRCLE_VERTICES cfg)
                                        * (pi * 2 / real_of_int (NUM_OUTER_CIRCLE_VERTICES cfg))))
                                 0)
                           (real_of_int (int (d !! Suc (i * (3 + nat (NUM_TRAIL_PARTICLES cfg)))
                                                mod Suc RAND_MAX)
                                           smod (MAX_MAGNITUDE cfg - MIN_MAGNITUDE cfg)
                                         + MIN_MAGNITUDE cfg))
                  \<and> scale (explosionParticles (fst (Firework_update cfg fw dt g)) ! (length (explosionParticles fw) + i))
                    = real_of_int (int (d !! Suc (Suc (i * (3 + nat (NUM_TRAIL_PARTICLES cfg))))
                                          mod Suc RAND_MAX)
                                     smod SCALE_RANGE cfg) + MIN_SCALE cfg)"
    if neg: "vec_y (fw_vel ?fw') < 0"
  proof -
    have n: "vec_y (fw_vel fw) + vec_y (GRAVITY cfg) * dt < 0" using neg vy by simp
    have "vel (explosionParticles (fst (Firework_update cfg fw dt g)) ! (length (explosionParticles fw) + i))
                    = vmul (Vec3 (cos (real_of_int (int ((snd (update_rocket_trails
                         (fw\<lparr>fw_vel := vadd (fw_vel fw) (vmul (GRAVITY cfg) dt),
                             fw_pos := vadd (fw_pos fw)
                                         (vmul (vadd (fw_vel fw) (vmul (GRAVITY cfg) dt)) dt)\<rparr>)
                         dt (fw_trailParticles fw) g)) !! (i * (3 + nat (NUM_TRAIL_PARTICLES cfg)))
                                                          mod Suc RAND_MAX)
                                                      smod NUM_OUTER_CIRCLE_VERTICES cfg)
                                        * (pi * 2 / real_of_int (NUM_OUTER_CIRCLE_VERTICES cfg))))
                                 (sin (real_of_int (int ((snd (update_rocket_trails
                         (fw\<lparr>fw_vel := vadd (fw_vel fw) (vmul (GRAVITY cfg) dt),
                             fw_pos := vadd (fw_pos fw)
                                         (vmul (vadd (fw_vel fw) (vmul (GRAVITY cfg) dt)) dt)\<rparr>)
                         dt (fw_trailParticles fw) g)) !! (i * (3 + nat (NUM_TRAIL_PARTICLES cfg)))
                                                          mod Suc RAND_MAX)
                                                      smod NUM_OUTER_CIRCLE_VERTICES cfg)
                                        * (pi * 2 / real_of_int (NUM_OUTER_CIRCLE_VERTICES cfg))))
                                 0)
                           (real_of_int (int ((snd (update_rocket_trails
                         (fw\<lparr>fw_vel := vadd (fw_vel fw) (vmul (GRAVITY cfg) dt),
                             fw_pos := vadd (fw_pos fw)
                                         (vmul (vadd (fw_vel fw) (vmul (GRAVITY cfg) dt)) dt)\<rparr>)
                         dt (fw_trailParticles fw) g)) !! Suc (i * (3 + nat (NUM_TRAIL_PARTICLES cfg)))
                                                mod Suc RAND_MAX)
                                           smod (MAX_MAGNITUDE cfg - MIN_MAGNITUDE cfg)
                                         + MIN_MAGNITUDE cfg))
                  \<and> scale (explosionParticles (fst (Firework_update cfg fw dt g)) ! (length (explosionParticles fw) + i))
                    = real_of_int (int ((snd (update_rocket_trails
                         (fw\<lparr>fw_vel := vadd (fw_vel fw) (vmul (GRAVITY cfg) dt),
                             fw_pos := vadd (fw_pos fw)
                                         (vmul (vadd (fw_vel fw) (vmul (GRAVITY cfg) dt)) dt)\<rparr>)
                         dt (fw_trailParticles fw) g)) !! Suc (Suc (i * (3 + nat (NUM_TRAIL_PARTICLES cfg))))
                                          mod Suc RAND_MAX)
                                     smod SCALE_RANGE cfg) + MIN_SCALE cfg"
      if "i < nat (numParticles fw)" for i
      using assms(1) n that refl by (rule Firework_update_explode_draws)
    then show ?thesis by blast
  qed
  show ?thesis using v p e x y by blast
qed

text \<open>
  A concrete run: the generator that always returns 100. The firework it builds has 30
  as its particle count and the velocity (0, 400, 0).
\<close>

lemma rand_sconst_100: "rand (sconst 100) = (100, sconst 100)"
  by (simp add: rand_def RAND_MAX_def)

lemma smod_100: "(100::int) smod 20 = 0" "(100::int) smod 200 = 100" "(100::int) smod 40 = 20"
  "(100::int) smod 2 = 0" "(100::int) smod 800 = 100" "(100::int) smod (- 20) = 0"
  by (simp_all add: signed_modulo_int_def)

lemma source_config_simps:
  "WORLD_WIDTH source_config = 800"
  "NUM_OUTER_CIRCLE_VERTICES source_config = 50"
  "GRAVITY source_config = Vec3 0 (- 200) 0"
  "NUM_FIREWORKS source_config = 10"
  "MIN_PARTICLES source_config = 30"
  "MAX_PARTICLES source_config = 50"
  "NUM_TRAIL_PARTICLES source_config = 15"
  "MIN_SCALE source_config = 1"
  "SCALE_RANGE source_config = 2"
  "MAX_INIT_X_VEL source_config = 20"
  "MIN_INIT_X_VEL source_config = - 20"
  "MAX_INIT_Y_VEL source_config = 500"
  "MIN_INIT_Y_VEL source_config = 300"
  "MIN_MAGNITUDE source_config = 20"
  "MAX_MAGNITUDE source_config = 200"
  "EXPLOSION_LIFE_DECREASE_RATE source_config = 1 / 2"
  "TRAIL_MIN_DECREASE_RATE source_config = 3"
  "TRAIL_MAX_DECREASE_RATE source_config = 6"
  by (simp_all add: source_config_def)

lemma Firework_new_100:
  "exploded (fst (Firework_new source_config (sconst 100))) = False"
  "explosionParticles (fst (Firework_new source_config (sconst 100))) = []"
  "numParticles (fst (Firework_new source_config (sconst 100))) = 30"
  "fw_vel (fst (Firework_new source_config (sconst 100))) = Vec3 0 400 0"
  by (simp_all add: Firework_new_def reset_exploded reset_explosionParticles reset_numParticles
      reset_fw_vel rand_sconst_100 source_config_simps smod_100)

lemma update_rocket_trails_rng_sconst:
  "snd (update_rocket_trails fw dt ts (sconst c)) = sconst c"
  by (induction ts) (simp_all add: Let_def split_beta respawnParticle_def rand_snd)

theorem rising_to_exploded_witness:
  "\<not> exploded (fst (Firework_new source_config (sconst 100)))
   \<and> 0 < NUM_OUTER_CIRCLE_VERTICES source_config
   \<and> MIN_MAGNITUDE source_config < MAX_MAGNITUDE source_config
   \<and> 0 < SCALE_RANGE source_config
   \<and> exploded (fst (Firework_update source_config
                      (fst (Firework_new source_config (sconst 100))) 3 (sconst 100)))
   \<and> fw_vel (fst (Firework_update source_config
                      (fst (Firework_new source_config (sconst 100))) 3 (sconst 100)))
        = Vec3 0 (- 200) 0
   \<and> fw_trailParticles (fst (Firework_update source_config
                      (fst (Firework_new source_config (sconst 100))) 3 (sconst 100))) = []
   \<and> length (explosionParticles (fst (Firework_update source_config
                      (fst (Firework_new source_config (sconst 100))) 3 (sconst 100)))) = 30
   \<and> vel (explosionParticles (fst (Firework_update source_config
                      (fst (Firework_new source_config (sconst 100))) 3 (sconst 100))) ! 0)
        = Vec3 120 0 0
   \<and> scale (explosionParticles (fst (Firework_update source_config
                      (fst (Firework_new source_config (sconst 100))) 3 (sconst 100))) ! 0) = 1"
proof -
  let ?fw = "fst (Firework_new source_config (sconst 100))"
  let ?fw' = "fst (Firework_update source_config ?fw 3 (sconst 100))"
  have h: "\<not> exploded ?fw" "0 < NUM_OUTER_CIRCLE_VERTICES source_config"
    "MIN_MAGNITUDE source_config < MAX_MAGNITUDE source_config"
    "0 < SCALE_RANGE source_config"
    by (simp_all add: Firework_new_100 source_config_simps)
  note t = rising_to_exploded [OF h, of 3 "sconst 100"]
  have a: "exploded ?fw' \<and> fw_vel ?fw' = Vec3 0 (- 200) 0 \<and> fw_trailParticles ?fw' = []
           \<and> length (explosionParticles ?fw') = 30"
    using t by (auto simp add: Firework_new_100 source_config_simps)
  have s100: "int (100 mod Suc RAND_MAX) = 100" by (simp add: RAND_MAX_def)
  have m: "(100::int) smod 50 = 0" "(100::int) smod 180 = 100" "(100::int) smod 2 = 0"
    by (simp_all add: signed_modulo_int_def)
  have "\<forall>i. i < nat (numParticles ?fw) \<longrightarrow>
          vel (explosionParticles ?fw' ! (length (explosionParticles ?fw) + i)) = Vec3 120 0 0
          \<and> scale (explosionParticles ?fw' ! (length (explosionParticles ?fw) + i)) = 1"
    using t a
    by (simp add: source_config_simps update_rocket_trails_rng_sconst s100 m)
  then have b: "vel (explosionParticles ?fw' ! 0) = Vec3 120 0 0
                \<and> scale (explosionParticles ?fw' ! 0) = 1"
    by (simp add: Firework_new_100)
  show ?thesis using h a b by simp
qed

subsection \<open>From exploded back to rising\<close>

lemma reset_trails_fresh:
  "length (fw_trailParticles (fst (reset cfg fw g))) = nat (NUM_TRAIL_PARTICLES cfg)
   \<and> list_all (\<lambda>t. life t = 1) (fw_trailParticles (fst (reset cfg fw g)))
   \<and> list_all (\<lambda>t. scale t = 1) (fw_trailParticles (fst (reset cfg fw g)))"
proof -
  obtain fw' g' where "fw_trailParticles (fst (reset cfg fw g))
      = fst (new_rocket_trails cfg (nat (NUM_TRAIL_PARTICLES cfg)) fw' g')"
    using reset_trailParticles by blast
  then show ?thesis
    by (simp add: new_rocket_trails_length new_rocket_trails_life new_rocket_trails_scale)
qed

text \<open>
  Claim C6. Let an exploded firework be updated, with a positive trail-particle count
  configured. If any one of its explosion particles has a life that this tick's decay
  brings to zero or below, whatever the lives of the others, then after the update the
  firework is not exploded, owns no explosion particles, and owns exactly
  \<open>NUM_TRAIL_PARTICLES\<close> trail particles, all new (life 1).
\<close>

theorem any_expiry_resets:
  assumes "exploded fw"
    and "e \<in> set (explosionParticles fw)"
    and "life e - EXPLOSION_LIFE_DECREASE_RATE cfg * dt \<le> 0"
    and "0 < NUM_TRAIL_PARTICLES cfg"
  shows "exploded (fst (Firework_update cfg fw dt g)) = False
    \<and> explosionParticles (fst (Firework_update cfg fw dt g)) = []
    \<and> fw_trailParticles (fst (Firework_update cfg fw dt g)) \<noteq> []
    \<and> int (length (fw_trailParticles (fst (Firework_update cfg fw dt g)))) = NUM_TRAIL_PARTICLES cfg
    \<and> list_all (\<lambda>t. life t = 1) (fw_trailParticles (fst (Firework_update cfg fw dt g)))"
proof -
  have "\<not> list_all (\<lambda>p. \<not> life p - EXPLOSION_LIFE_DECREASE_RATE cfg * dt \<le> 0)
            (explosionParticles fw)"
    using assms(2,3) by (auto simp: list_all_iff)
  then obtain fw0 g0 where
    r: "fst (update_explosions cfg dt fw [] (explosionParticles fw) g) = fst (reset cfg fw0 g0)"
    using update_explosions_shape [of cfg dt "explosionParticles fw" fw "[]" g] by blast
  have u: "fst (Firework_update cfg fw dt g) = fst (reset cfg fw0 g0)"
    using assms(1) r by (simp add: Firework_update_def)
  have len: "length (fw_trailParticles (fst (reset cfg fw0 g0))) = nat (NUM_TRAIL_PARTICLES cfg)"
    using reset_trails_fresh by blast
  then have ne: "fw_trailParticles (fst (reset cfg fw0 g0)) \<noteq> []"
    using assms(4) by auto
  show ?thesis
    using len ne assms(4) reset_trails_fresh [of cfg fw0 g0]
    by (simp add: u reset_exploded reset_explosionParticles)
qed

theorem any_expiry_resets_witness:
  "exploded example_burst
   \<and> example_particle\<lparr>life := 1 / 100\<rparr> \<in> set (explosionParticles example_burst)
   \<and> life (example_particle\<lparr>life := 1 / 100\<rparr>)
        - EXPLOSION_LIFE_DECREASE_RATE source_config * (1 / 10) \<le> 0
   \<and> 0 < life example_particle - EXPLOSION_LIFE_DECREASE_RATE source_config * (1 / 10)
   \<and> 0 < NUM_TRAIL_PARTICLES source_config
   \<and> exploded (fst (Firework_update source_config example_burst (1 / 10) (sconst 100))) = False
   \<and> explosionParticles (fst (Firework_update source_config example_burst (1 / 10) (sconst 100)))
        = []
   \<and> length (fw_trailParticles
               (fst (Firework_update source_config example_burst (1 / 10) (sconst 100)))) = 15"
proof -
  have h: "exploded example_burst"
    "example_particle\<lparr>life := 1 / 100\<rparr> \<in> set (explosionParticles example_burst)"
    "life (example_particle\<lparr>life := 1 / 100\<rparr>)
        - EXPLOSION_LIFE_DECREASE_RATE source_config * (1 / 10) \<le> 0"
    "0 < NUM_TRAIL_PARTICLES source_config"
    by (simp_all add: example_burst_def source_config_simps)
  have a: "0 < life example_particle - EXPLOSION_LIFE_DECREASE_RATE source_config * (1 / 10)"
    by (simp add: example_particle_def ExplosionParticle_new_fields source_config_simps)
  show ?thesis
    using h a any_expiry_resets [OF h, of "sconst 100"]
    by (simp add: source_config_simps)
qed


subsection \<open>The two states of a firework\<close>

text \<open>A property that \<^verbatim>\<open>reset()\<close> establishes and \<^verbatim>\<open>Firework::update\<close> keeps holds
  for every firework of the world at every frame.\<close>

lemma update_length: "length (fst (update cfg fws dt g)) = length fws"
  by (induction fws arbitrary: g) (simp_all add: Let_def split_beta)

lemma simulate_length: "length (fst (simulate cfg fws dts g)) = length fws"
  by (induction dts arbitrary: fws g) (simp_all add: Let_def split_beta update_length)

lemma new_fireworks_length: "length (fst (new_fireworks cfg n g)) = n"
  by (induction n arbitrary: g) (simp_all add: Let_def split_beta)

lemma initFireworks_length:
  "length (fst (initFireworks cfg fws g)) = length fws + nat (NUM_FIREWORKS cfg)"
  by (simp add: initFireworks_def Let_def split_beta new_fireworks_length)

lemma update_all:
  assumes step: "\<And>fw g. P fw \<Longrightarrow> P (fst (Firework_update cfg fw dt g))"
    and "list_all P fws"
  shows "list_all P (fst (update cfg fws dt g))"
  using assms(2)
  by (induction fws arbitrary: g) (simp_all add: Let_def split_beta step)

lemma simulate_all:
  assumes step: "\<And>fw dt g. P fw \<Longrightarrow> P (fst (Firework_update cfg fw dt g))"
    and "list_all P fws"
  shows "list_all P (fst (simulate cfg fws dts g))"
  using assms(2)
proof (induction dts arbitrary: fws g)
  case Nil
  then show ?case by simp
next
  case (Cons dt dts)
  have "list_all P (fst (update cfg fws dt g))"
    using step Cons.prems by (rule update_all)
  then show ?case by (simp add: Let_def split_beta Cons.IH)
qed

lemma new_fireworks_all:
  assumes "\<And>fw g. P (fst (reset cfg fw g))"
  shows "list_all P (fst (new_fireworks cfg n g))"
  by (induction n arbitrary: g) (simp_all add: Let_def split_beta Firework_new_def assms)

lemma initFireworks_all:
  assumes "\<And>fw g. P (fst (reset cfg fw g))"
  shows "list_all P (fst (initFireworks cfg [] g))"
  using new_fireworks_all [of P cfg, OF assms] by (simp add: initFireworks_def Let_def split_beta)

lemma reset_numParticles_source: "30 \<le> numParticles (fst (reset source_config fw g))"
proof -
  have "0 \<le> fst (rand g) smod (MAX_PARTICLES source_config - MIN_PARTICLES source_config)"
    using rand_range [of g] by (simp add: smod_nonneg_any)
  then show ?thesis by (simp add: reset_numParticles source_config_simps)
qed

lemma reset_RISING_source:
  "RISING (fst (reset source_config fw g)) \<and> 0 < numParticles (fst (reset source_config fw g))"
proof -
  have "length (fw_trailParticles (fst (reset source_config fw g))) = 15"
    using reset_trails_fresh [of source_config fw g] by (simp add: source_config_simps)
  then have "fw_trailParticles (fst (reset source_config fw g)) \<noteq> []" by auto
  then show ?thesis
    using reset_numParticles_source [of fw g]
    by (simp add: RISING_def reset_exploded reset_explosionParticles)
qed

lemma Firework_update_state_source:
  assumes "(RISING fw \<or> EXPLODED fw) \<and> 0 < numParticles fw"
  shows "(RISING (fst (Firework_update source_config fw dt g))
            \<or> EXPLODED (fst (Firework_update source_config fw dt g)))
         \<and> 0 < numParticles (fst (Firework_update source_config fw dt g))"
proof (cases "exploded fw")
  case False
  with assms have r: "fw_trailParticles fw \<noteq> []" "explosionParticles fw = []"
    by (auto simp: RISING_def EXPLODED_def)
  have n: "numParticles (fst (Firework_update source_config fw dt g)) = numParticles fw"
    using False by (simp add: Firework_update_rising)
  show ?thesis
  proof (cases "vec_y (fw_vel fw) + vec_y (GRAVITY source_config) * dt < 0")
    case True
    obtain g' where "explosionParticles (fst (Firework_update source_config fw dt g))
           = explosionParticles fw
             @ fst (new_explosion_particles source_config (nat (numParticles fw))
                      (pi * 2 / real_of_int (NUM_OUTER_CIRCLE_VERTICES source_config))
                      (fst (Firework_update source_config fw dt g)\<lparr>explosionParticles := explosionParticles fw\<rparr>) g')"
      using Firework_update_explode(2) [OF False True] by blast
    then have "length (explosionParticles (fst (Firework_update source_config fw dt g)))
        = nat (numParticles fw)"
      by (simp add: r new_explosion_particles_length)
    then have "explosionParticles (fst (Firework_update source_config fw dt g)) \<noteq> []"
      using assms by auto
    then have "EXPLODED (fst (Firework_update source_config fw dt g))"
      using Firework_update_explode(1) [OF False True] Firework_update_rising(6) [OF False] True
      by (simp add: EXPLODED_def)
    then show ?thesis using n assms by simp
  next
    case on: False
    obtain fw' g' where "fw_trailParticles (fst (Firework_update source_config fw dt g))
           = fst (update_rocket_trails fw' dt (fw_trailParticles fw) g')"
      using Firework_update_rising_on(2) [OF False on] by blast
    then have "length (fw_trailParticles (fst (Firework_update source_config fw dt g)))
        = length (fw_trailParticles fw)"
      by (simp add: update_rocket_trails_length)
    then have "fw_trailParticles (fst (Firework_update source_config fw dt g)) \<noteq> []"
      using r(1) by auto
    then have "RISING (fst (Firework_update source_config fw dt g))"
      using Firework_update_rising_on(1) [OF False on] Firework_update_rising(6) [OF False] on r(2)
      by (simp add: RISING_def)
    then show ?thesis using n assms by simp
  qed
next
  case True
  with assms have x: "fw_trailParticles fw = []" "explosionParticles fw \<noteq> []"
    by (auto simp: RISING_def EXPLODED_def)
  have u: "fst (Firework_update source_config fw dt g)
      = fst (update_explosions source_config dt fw [] (explosionParticles fw) g)"
    using True by (simp add: Firework_update_def)
  consider (live) todo' where
      "fst (update_explosions source_config dt fw [] (explosionParticles fw) g)
         = fw\<lparr>explosionParticles := [] @ todo'\<rparr>"
      "list_all2 (\<lambda>p p'. \<exists>g'. p' = fst (ExplosionParticle_update source_config p dt g'))
         (explosionParticles fw) todo'"
    | (reset) fw0 g0 where
      "fst (update_explosions source_config dt fw [] (explosionParticles fw) g)
         = fst (reset source_config fw0 g0)"
    using update_explosions_shape [of source_config dt "explosionParticles fw" fw "[]" g] by blast
  then show ?thesis
  proof cases
    case live
    have "length todo' = length (explosionParticles fw)"
      using live(2) by (simp add: list_all2_lengthD)
    then have "todo' \<noteq> []" using x(2) by auto
    then show ?thesis using live(1) True x(1) assms by (simp add: u EXPLODED_def)
  next
    case reset
    then show ?thesis using reset_RISING_source [of fw0 g0] by (simp add: u)
  qed
qed

text \<open>
  Claim C7. In the world that \<^verbatim>\<open>initFireworks()\<close> builds with the constants of main.cpp,
  after any number of frames with any time steps and any random numbers, there are still
  10 fireworks and each is in exactly one of the two states: not exploded with a nonempty
  trail and no explosion particles, or exploded with an empty trail and at least one
  explosion particle. So exactly one of its two collections is nonempty.
\<close>

theorem rising_xor_exploded:
  "length (fst (simulate source_config (fst (initFireworks source_config [] g)) dts g')) = 10
   \<and> list_all (\<lambda>fw. (RISING fw \<or> EXPLODED fw) \<and> \<not> (RISING fw \<and> EXPLODED fw)
                 \<and> ((fw_trailParticles fw \<noteq> []) \<noteq> (explosionParticles fw \<noteq> [])))
     (fst (simulate source_config (fst (initFireworks source_config [] g)) dts g'))"
proof -
  let ?Q = "\<lambda>fw. (RISING fw \<or> EXPLODED fw) \<and> 0 < numParticles fw"
  have init: "list_all ?Q (fst (initFireworks source_config [] g))"
  proof (rule initFireworks_all)
    fix fw g
    show "?Q (fst (reset source_config fw g))" using reset_RISING_source [of fw g] by simp
  qed
  have "list_all ?Q (fst (simulate source_config (fst (initFireworks source_config [] g)) dts g'))"
  proof (rule simulate_all [where P = ?Q, OF _ init])
    fix fw dt g
    assume "?Q fw"
    then show "?Q (fst (Firework_update source_config fw dt g))"
      by (rule Firework_update_state_source)
  qed
  then have "list_all (\<lambda>fw. (RISING fw \<or> EXPLODED fw) \<and> \<not> (RISING fw \<and> EXPLODED fw)
                 \<and> ((fw_trailParticles fw \<noteq> []) \<noteq> (explosionParticles fw \<noteq> [])))
     (fst (simulate source_config (fst (initFireworks source_config [] g)) dts g'))"
    by (rule list.pred_mono_strong) (auto simp: RISING_def EXPLODED_def)
  then show ?thesis
    by (simp add: simulate_length initFireworks_length source_config_simps)
qed


subsection \<open>Scales of trail particles\<close>

lemma reset_trail_scales_one: "trail_scales_one (fst (reset cfg fw g))"
  using reset_trails_fresh [of cfg fw g]
  by (simp add: trail_scales_one_def reset_explosionParticles)

lemma ExplosionParticle_update_trail_scales:
  "list_all (\<lambda>t. scale t = 1) (trailParticles e) \<Longrightarrow>
   list_all (\<lambda>t. scale t = 1) (trailParticles (fst (ExplosionParticle_update cfg e dt g)))"
  by (simp add: ExplosionParticle_update_fields update_explosion_trails_scale)

lemma Firework_update_trail_scales_one:
  assumes "trail_scales_one fw"
  shows "trail_scales_one (fst (Firework_update cfg fw dt g))"
proof (cases "exploded fw")
  case False
  show ?thesis
  proof (cases "vec_y (fw_vel fw) + vec_y (GRAVITY cfg) * dt < 0")
    case True
    obtain g' where es: "explosionParticles (fst (Firework_update cfg fw dt g))
           = explosionParticles fw
             @ fst (new_explosion_particles cfg (nat (numParticles fw))
                      (pi * 2 / real_of_int (NUM_OUTER_CIRCLE_VERTICES cfg))
                      (fst (Firework_update cfg fw dt g)\<lparr>explosionParticles := explosionParticles fw\<rparr>) g')"
      using Firework_update_explode(2) [OF False True] by blast
    have "list_all (\<lambda>e. list_all (\<lambda>t. scale t = 1) (trailParticles e))
            (fst (new_explosion_particles cfg (nat (numParticles fw))
                      (pi * 2 / real_of_int (NUM_OUTER_CIRCLE_VERTICES cfg))
                      (fst (Firework_update cfg fw dt g)\<lparr>explosionParticles := explosionParticles fw\<rparr>) g'))"
      by (rule list.pred_mono_strong [OF new_explosion_particles_each]) simp
    then show ?thesis
      using assms es Firework_update_explode(1) [OF False True]
      by (simp add: trail_scales_one_def)
  next
    case on: False
    obtain fw' g' where "fw_trailParticles (fst (Firework_update cfg fw dt g))
           = fst (update_rocket_trails fw' dt (fw_trailParticles fw) g')"
      using Firework_update_rising_on(2) [OF False on] by blast
    then show ?thesis
      using assms Firework_update_rising_on(1) [OF False on]
      by (simp add: trail_scales_one_def update_rocket_trails_scale)
  qed
next
  case True
  have u: "fst (Firework_update cfg fw dt g)
      = fst (update_explosions cfg dt fw [] (explosionParticles fw) g)"
    using True by (simp add: Firework_update_def)
  consider (live) todo' where
      "fst (update_explosions cfg dt fw [] (explosionParticles fw) g)
         = fw\<lparr>explosionParticles := [] @ todo'\<rparr>"
      "list_all2 (\<lambda>p p'. \<exists>g'. p' = fst (ExplosionParticle_update cfg p dt g'))
         (explosionParticles fw) todo'"
    | (reset) fw0 g0 where
      "fst (update_explosions cfg dt fw [] (explosionParticles fw) g) = fst (reset cfg fw0 g0)"
    using update_explosions_shape [of cfg dt "explosionParticles fw" fw "[]" g] by blast
  then show ?thesis
  proof cases
    case live
    have a: "list_all (\<lambda>e. list_all (\<lambda>t. scale t = 1) (trailParticles e)) (explosionParticles fw)"
      using assms by (simp add: trail_scales_one_def)
    have "list_all (\<lambda>e. list_all (\<lambda>t. scale t = 1) (trailParticles e)) todo'"
      using live(2) a
    proof (induction rule: list_all2_induct)
      case Nil
      then show ?case by simp
    next
      case (Cons p ps p' ps')
      then show ?case by (auto simp: ExplosionParticle_update_trail_scales)
    qed
    then show ?thesis using assms live(1) by (simp add: u trail_scales_one_def)
  next
    case reset
    then show ?thesis by (simp add: u reset_trail_scales_one)
  qed
qed

lemma reset_fw_scale_sampled:
  "\<exists>r. 0 \<le> r \<and> fw_scale (fst (reset cfg fw g))
                    = real_of_int (r smod SCALE_RANGE cfg) + MIN_SCALE cfg"
  using rand_range [of "snd (rand (snd (rand (snd (rand (snd (rand g)))))))"]
  by (intro exI [of _ "fst (rand (snd (rand (snd (rand (snd (rand (snd (rand g)))))))))"])
     (simp add: reset_fw_scale)

lemma new_explosion_particles_scale_sampled:
  "list_all (\<lambda>e. \<exists>r. 0 \<le> r \<and> scale e = real_of_int (r smod SCALE_RANGE cfg) + MIN_SCALE cfg)
     (fst (new_explosion_particles cfg n theta fw g))"
  by (rule list.pred_mono_strong [OF new_explosion_particles_each]) blast

text \<open>
  Claim C10. A trail particle is created with scale 1, by the loop of
  \<^verbatim>\<open>Firework::reset\<close> and by the loop of the \<^verbatim>\<open>ExplosionParticle\<close> constructor alike;
  \<^verbatim>\<open>TrailParticle::update\<close> and the two respawn members leave the scale as it is; and
  in the world that \<^verbatim>\<open>initFireworks()\<close> builds, after any frames, every trail particle
  of every firework, the rocket's and the explosion particles', has scale 1. The sampled
  scale \<open>MIN_SCALE + rand() % SCALE_RANGE\<close> is what the rocket gets at a reset and what
  an explosion particle gets when it is created.
\<close>

theorem trail_particle_scale_one:
  "list_all (\<lambda>t. scale t = 1) (fst (new_rocket_trails cfg n fw g))
   \<and> list_all (\<lambda>t. scale t = 1) (fst (new_explosion_trails cfg n p v c g))
   \<and> scale (TrailParticle_update t dt sv sl) = scale t
   \<and> scale (fst (respawnParticle fw t g)) = scale t
   \<and> scale (fst (respawnTrailParticle e t g)) = scale t
   \<and> list_all trail_scales_one (fst (simulate cfg (fst (initFireworks cfg [] g)) dts g'))
   \<and> (\<exists>r. 0 \<le> r \<and> fw_scale (fst (reset cfg fw g))
                       = real_of_int (r smod SCALE_RANGE cfg) + MIN_SCALE cfg)
   \<and> list_all (\<lambda>e. \<exists>r. 0 \<le> r \<and> scale e = real_of_int (r smod SCALE_RANGE cfg) + MIN_SCALE cfg)
        (fst (new_explosion_particles cfg n theta fw g))"
proof -
  have init: "list_all trail_scales_one (fst (initFireworks cfg [] g))"
    by (rule initFireworks_all) (rule reset_trail_scales_one)
  have "list_all trail_scales_one (fst (simulate cfg (fst (initFireworks cfg [] g)) dts g'))"
    by (rule simulate_all [where P = trail_scales_one, OF _ init])
       (rule Firework_update_trail_scales_one)
  then show ?thesis
    using reset_fw_scale_sampled [of cfg fw g]
      new_explosion_particles_scale_sampled [of cfg n theta fw g]
    by (simp add: new_rocket_trails_scale new_explosion_trails_scale TrailParticle_update_scale
        respawnParticle_scale respawnTrailParticle_scale)
qed

subsection \<open>The apex scenario\<close>

lemma Firework_ticks_Suc_end:
  "Firework_ticks cfg (Suc n) fw dt g
     = Firework_update cfg (fst (Firework_ticks cfg n fw dt g)) dt (snd (Firework_ticks cfg n fw dt g))"
  by (induction n arbitrary: fw g) (simp_all add: Let_def split_beta)

lemma rising_ticks:
  assumes "\<not> exploded fw" "20 * real k \<le> vec_y (fw_vel fw)"
  shows "exploded (fst (Firework_ticks source_config k fw (1 / 10) g)) = False
    \<and> vec_y (fw_vel (fst (Firework_ticks source_config k fw (1 / 10) g)))
        = vec_y (fw_vel fw) - 20 * real k
    \<and> numParticles (fst (Firework_ticks source_config k fw (1 / 10) g)) = numParticles fw
    \<and> explosionParticles (fst (Firework_ticks source_config k fw (1 / 10) g))
        = explosionParticles fw"
  using assms
proof (induction k arbitrary: fw g)
  case 0
  then show ?case by simp
next
  case (Suc k)
  let ?fw' = "fst (Firework_update source_config fw (1 / 10) g)"
  let ?g' = "snd (Firework_update source_config fw (1 / 10) g)"
  have vy: "vec_y (fw_vel ?fw') = vec_y (fw_vel fw) - 20"
    using Firework_update_rising(1) [OF Suc.prems(1), of source_config "1 / 10" g]
    by (simp add: vadd_sel vmul_sel source_config_simps)
  have on: "\<not> vec_y (fw_vel fw) + vec_y (GRAVITY source_config) * (1 / 10) < 0"
    using Suc.prems(2) by (simp add: source_config_simps)
  have ne: "\<not> exploded ?fw'"
    using Firework_update_rising(6) [OF Suc.prems(1), of source_config "1 / 10" g] on by simp
  have le: "20 * real k \<le> vec_y (fw_vel ?fw')"
    using Suc.prems(2) vy by simp
  have n: "numParticles ?fw' = numParticles fw"
    using Suc.prems(1) by (rule Firework_update_rising)
  have ex: "explosionParticles ?fw' = explosionParticles fw"
    using Suc.prems(1) on by (rule Firework_update_rising_on)
  show ?case
    using Suc.IH [OF ne le, of ?g'] vy n ex
    by (simp add: Let_def split_beta)
qed

text \<open>
  Claim C8, as the code has it. A firework that has not exploded, owns no explosion
  particles and has vertical velocity 400 is updated with \<open>dt = 1/10\<close> under the
  constants of main.cpp (gravity -200). After \<open>k\<close> updates, for every \<open>k\<close> up to 20, its
  vertical velocity is \<open>400 - 20 k\<close> and it has not exploded; after the 20th update the
  velocity is exactly 0, which is not negative, so the firework is still rising with no
  explosion particles. The 21st update makes the velocity -20 and the firework explodes;
  its explosion particles are then as many as \<open>numParticles\<close>, which no update has changed.
\<close>

theorem apex_boundary_scenario:
  assumes "\<not> exploded fw" "vec_y (fw_vel fw) = 400" "explosionParticles fw = []"
  shows "(\<forall>k\<le>20. exploded (fst (Firework_ticks source_config k fw (1 / 10) g)) = False
               \<and> vec_y (fw_vel (fst (Firework_ticks source_config k fw (1 / 10) g)))
                    = 400 - 20 * real k
               \<and> explosionParticles (fst (Firework_ticks source_config k fw (1 / 10) g)) = [])
    \<and> vec_y (fw_vel (fst (Firework_ticks source_config 20 fw (1 / 10) g))) = 0
    \<and> exploded (fst (Firework_ticks source_config 21 fw (1 / 10) g)) = True
    \<and> vec_y (fw_vel (fst (Firework_ticks source_config 21 fw (1 / 10) g))) = - 20
    \<and> int (length (explosionParticles (fst (Firework_ticks source_config 21 fw (1 / 10) g))))
        = max 0 (numParticles fw)"
proof -
  have a: "exploded (fst (Firework_ticks source_config k fw (1 / 10) g)) = False
        \<and> vec_y (fw_vel (fst (Firework_ticks source_config k fw (1 / 10) g)))
             = 400 - 20 * real k
        \<and> explosionParticles (fst (Firework_ticks source_config k fw (1 / 10) g)) = []"
    if "k \<le> 20" for k
  proof -
    have "20 * real k \<le> vec_y (fw_vel fw)" using that assms(2) by simp
    from rising_ticks [OF assms(1) this, of g] show ?thesis
      using that assms(2,3) by simp
  qed
  let ?fw20 = "fst (Firework_ticks source_config 20 fw (1 / 10) g)"
  let ?g20 = "snd (Firework_ticks source_config 20 fw (1 / 10) g)"
  have "20 * real (20::nat) \<le> vec_y (fw_vel fw)" using assms(2) by simp
  from rising_ticks [OF assms(1) this, of g]
  have b: "\<not> exploded ?fw20" "vec_y (fw_vel ?fw20) = 0" "numParticles ?fw20 = numParticles fw"
    "explosionParticles ?fw20 = []"
    using assms(2,3) by simp_all
  have s: "Firework_ticks source_config 21 fw (1 / 10) g
      = Firework_update source_config ?fw20 (1 / 10) ?g20"
    using Firework_ticks_Suc_end [of source_config 20 fw "1 / 10" g] by simp
  have neg: "vec_y (fw_vel ?fw20) + vec_y (GRAVITY source_config) * (1 / 10) < 0"
    using b(2) by (simp add: source_config_simps)
  have c1: "exploded (fst (Firework_update source_config ?fw20 (1 / 10) ?g20))"
    using Firework_update_rising(6) [OF b(1), of source_config "1 / 10" ?g20] neg by simp
  have c2: "vec_y (fw_vel (fst (Firework_update source_config ?fw20 (1 / 10) ?g20))) = - 20"
    using Firework_update_rising(1) [OF b(1), of source_config "1 / 10" ?g20] b(2)
    by (simp add: vadd_sel vmul_sel source_config_simps)
  obtain g' where "explosionParticles (fst (Firework_update source_config ?fw20 (1 / 10) ?g20))
           = explosionParticles ?fw20
             @ fst (new_explosion_particles source_config (nat (numParticles ?fw20))
                      (pi * 2 / real_of_int (NUM_OUTER_CIRCLE_VERTICES source_config))
                      (fst (Firework_update source_config ?fw20 (1 / 10) ?g20)
                         \<lparr>explosionParticles := explosionParticles ?fw20\<rparr>) g')"
    using Firework_update_explode(2) [OF b(1) neg] by blast
  then have c3: "int (length (explosionParticles
                     (fst (Firework_update source_config ?fw20 (1 / 10) ?g20))))
        = max 0 (numParticles fw)"
    using b(3,4) by (simp add: new_explosion_particles_length)
  show ?thesis using a b(2) c1 c2 c3 by (simp add: s)
qed

text \<open>
  The scenario as the specification words it fails on the firework that the generator
  returning 100 builds (velocity (0, 400, 0), particle count 30): after 20 updates with
  \<open>dt = 1/10\<close> it has vertical velocity 0, has not exploded and owns no explosion particle.
\<close>

theorem apex_scenario_counterexample:
  "exploded (fst (Firework_ticks source_config 20
                    (fst (Firework_new source_config (sconst 100))) (1 / 10) (sconst 100))) = False
   \<and> vec_y (fw_vel (fst (Firework_ticks source_config 20
                    (fst (Firework_new source_config (sconst 100))) (1 / 10) (sconst 100)))) = 0
   \<and> explosionParticles (fst (Firework_ticks source_config 20
                    (fst (Firework_new source_config (sconst 100))) (1 / 10) (sconst 100))) = []
   \<and> numParticles (fst (Firework_ticks source_config 20
                    (fst (Firework_new source_config (sconst 100))) (1 / 10) (sconst 100))) = 30"
proof -
  let ?fw = "fst (Firework_new source_config (sconst 100))"
  have h: "\<not> exploded ?fw" "20 * real (20::nat) \<le> vec_y (fw_vel ?fw)"
    by (simp_all add: Firework_new_100)
  show ?thesis
    using rising_ticks [OF h, of "sconst 100"] by (simp add: Firework_new_100)
qed

theorem apex_boundary_scenario_witness:
  "\<not> exploded (fst (Firework_new source_config (sconst 100)))
   \<and> vec_y (fw_vel (fst (Firework_new source_config (sconst 100)))) = 400
   \<and> explosionParticles (fst (Firework_new source_config (sconst 100))) = []
   \<and> exploded (fst (Firework_ticks source_config 19
                    (fst (Firework_new source_config (sconst 100))) (1 / 10) (sconst 100))) = False
   \<and> exploded (fst (Firework_ticks source_config 21
                    (fst (Firework_new source_config (sconst 100))) (1 / 10) (sconst 100))) = True
   \<and> length (explosionParticles (fst (Firework_ticks source_config 21
                    (fst (Firework_new source_config (sconst 100))) (1 / 10) (sconst 100)))) = 30"
proof -
  let ?fw = "fst (Firework_new source_config (sconst 100))"
  have h: "\<not> exploded ?fw" "vec_y (fw_vel ?fw) = 400" "explosionParticles ?fw = []"
    by (simp_all add: Firework_new_100)
  show ?thesis
    using h apex_boundary_scenario [OF h, of "sconst 100"] by (simp add: Firework_new_100)
qed

subsection \<open>Initialisation and malformed configurations\<close>

lemma new_rocket_trails_rates:
  "list_all (\<lambda>t. \<exists>u. 0 \<le> u \<and> u \<le> 1
                  \<and> lifeDecreaseRate t
                      = u * (TRAIL_MAX_DECREASE_RATE cfg - TRAIL_MIN_DECREASE_RATE cfg)
                          + TRAIL_MIN_DECREASE_RATE cfg)
     (fst (new_rocket_trails cfg n fw g))"
proof (induction n arbitrary: g)
  case 0
  then show ?case by simp
next
  case (Suc n)
  have "0 \<le> rand_unit (fst (rand g)) \<and> rand_unit (fst (rand g)) \<le> 1"
    using rand_unit_range [of "fst (rand g)"] rand_range [of g] by simp
  then show ?case
    using Suc by (auto simp: Let_def split_beta TrailParticle_new_def)
qed

lemma reset_unchecked:
  "exploded (fst (reset cfg fw g)) = False
   \<and> explosionParticles (fst (reset cfg fw g)) = []
   \<and> length (fw_trailParticles (fst (reset cfg fw g))) = nat (NUM_TRAIL_PARTICLES cfg)
   \<and> list_all (\<lambda>t. \<exists>u. 0 \<le> u \<and> u \<le> 1
                  \<and> lifeDecreaseRate t
                      = u * (TRAIL_MAX_DECREASE_RATE cfg - TRAIL_MIN_DECREASE_RATE cfg)
                          + TRAIL_MIN_DECREASE_RATE cfg)
       (fw_trailParticles (fst (reset cfg fw g)))"
proof -
  obtain fw' g' where "fw_trailParticles (fst (reset cfg fw g))
      = fst (new_rocket_trails cfg (nat (NUM_TRAIL_PARTICLES cfg)) fw' g')"
    using reset_trailParticles by blast
  then show ?thesis
    using new_rocket_trails_rates [of cfg "nat (NUM_TRAIL_PARTICLES cfg)" fw' g']
    by (simp add: reset_exploded reset_explosionParticles new_rocket_trails_length)
qed

text \<open>
  Claim C9, as the code has it. \<^verbatim>\<open>initFireworks()\<close> checks nothing and cannot fail.
  For every configuration on which the integer arithmetic of \<^verbatim>\<open>reset()\<close> is defined,
  whether its ranges are ordered or reversed and whatever the sign of its decay rates,
  it returns a world of \<open>NUM_FIREWORKS\<close> fireworks, each not exploded, without explosion
  particles and with \<open>NUM_TRAIL_PARTICLES\<close> trail particles, whose decay rates are
  taken from the configured bounds as they are:
  \<open>u * (TRAIL_MAX_DECREASE_RATE - TRAIL_MIN_DECREASE_RATE) + TRAIL_MIN_DECREASE_RATE\<close>
  for a \<open>u\<close> between 0 and 1.
\<close>

theorem initFireworks_unchecked:
  assumes "sampling_defined cfg"
  shows "length (fst (initFireworks cfg [] g)) = nat (NUM_FIREWORKS cfg)
    \<and> list_all (\<lambda>fw. exploded fw = False \<and> explosionParticles fw = []
                   \<and> length (fw_trailParticles fw) = nat (NUM_TRAIL_PARTICLES cfg)
                   \<and> list_all (\<lambda>t. \<exists>u. 0 \<le> u \<and> u \<le> 1
                          \<and> lifeDecreaseRate t
                              = u * (TRAIL_MAX_DECREASE_RATE cfg - TRAIL_MIN_DECREASE_RATE cfg)
                                  + TRAIL_MIN_DECREASE_RATE cfg)
                        (fw_trailParticles fw))
        (fst (initFireworks cfg [] g))"
proof -
  have "list_all (\<lambda>fw. exploded fw = False \<and> explosionParticles fw = []
                   \<and> length (fw_trailParticles fw) = nat (NUM_TRAIL_PARTICLES cfg)
                   \<and> list_all (\<lambda>t. \<exists>u. 0 \<le> u \<and> u \<le> 1
                          \<and> lifeDecreaseRate t
                              = u * (TRAIL_MAX_DECREASE_RATE cfg - TRAIL_MIN_DECREASE_RATE cfg)
                                  + TRAIL_MIN_DECREASE_RATE cfg)
                        (fw_trailParticles fw))
        (fst (initFireworks cfg [] g))"
    by (rule initFireworks_all) (rule reset_unchecked)
  then show ?thesis by (simp add: initFireworks_length)
qed

lemma malformed_config_simps:
  "NUM_FIREWORKS malformed_config = 10"
  "MIN_PARTICLES malformed_config = 50"
  "MAX_PARTICLES malformed_config = 30"
  "NUM_TRAIL_PARTICLES malformed_config = 15"
  "TRAIL_MIN_DECREASE_RATE malformed_config = - 6"
  "TRAIL_MAX_DECREASE_RATE malformed_config = - 3"
  by (simp_all add: malformed_config_def source_config_def)

lemma sampling_defined_malformed: "sampling_defined malformed_config"
  by (simp add: sampling_defined_def malformed_config_def source_config_def)

lemma hd_new_fireworks:
  "0 < n \<Longrightarrow> hd (fst (new_fireworks cfg n g)) = fst (Firework_new cfg g)"
  by (cases n) (simp_all add: Let_def split_beta)

lemma hd_new_rocket_trails:
  "0 < n \<Longrightarrow> lifeDecreaseRate (hd (fst (new_rocket_trails cfg n fw g)))
     = rand_unit (fst (rand g)) * (TRAIL_MAX_DECREASE_RATE cfg - TRAIL_MIN_DECREASE_RATE cfg)
         + TRAIL_MIN_DECREASE_RATE cfg"
  by (cases n) (simp_all add: Let_def split_beta TrailParticle_new_def)

lemma reset_trailParticles_sconst_100:
  "fw_trailParticles (fst (reset cfg fw (sconst 100)))
     = fst (new_rocket_trails cfg (nat (NUM_TRAIL_PARTICLES cfg))
              (fst (randomiseColor
                 (fw\<lparr> explosionParticles := [], fw_trailParticles := [], exploded := False,
                      numParticles := 100 smod (MAX_PARTICLES cfg - MIN_PARTICLES cfg) + MIN_PARTICLES cfg,
                      fw_pos := Vec3 (real_of_int (100 smod WORLD_WIDTH cfg)) 0 0,
                      fw_vel := Vec3 (real_of_int (100 smod (MAX_INIT_X_VEL cfg - MIN_INIT_X_VEL cfg)
                                         + MIN_INIT_X_VEL cfg))
                         (real_of_int (100 smod (MAX_INIT_Y_VEL cfg - MIN_INIT_Y_VEL cfg)
                                         + MIN_INIT_Y_VEL cfg)) 0,
                      fw_scale := real_of_int (100 smod SCALE_RANGE cfg) + MIN_SCALE cfg \<rparr>)
                 (sconst 100)))
              (sconst 100))"
  by (simp add: reset_def Let_def split_beta randomiseColor_def rand_sconst_100)

text \<open>
  With the malformed configuration \<^verbatim>\<open>initFireworks()\<close> returns a world as usual: 10
  fireworks, the first one rising with particle count 50 and 15 trail particles, the
  first of which has a negative decay rate.
\<close>

theorem malformed_config_counterexample:
  "length (fst (initFireworks malformed_config [] (sconst 100))) = 10
   \<and> exploded (hd (fst (initFireworks malformed_config [] (sconst 100)))) = False
   \<and> numParticles (hd (fst (initFireworks malformed_config [] (sconst 100)))) = 50
   \<and> length (fw_trailParticles (hd (fst (initFireworks malformed_config [] (sconst 100))))) = 15
   \<and> lifeDecreaseRate (hd (fw_trailParticles (hd (fst (initFireworks malformed_config []
                                                         (sconst 100)))))) < 0"
proof -
  have hd0: "hd (fst (initFireworks malformed_config [] (sconst 100)))
      = fst (reset malformed_config
               \<lparr> fw_pos = Vec3 0 0 0, fw_vel = Vec3 0 0 0, fw_color = Vec4 0 0 0 0,
                 fw_scale = 0, exploded = False, numParticles = 0,
                 fw_trailParticles = [], explosionParticles = [] \<rparr> (sconst 100))"
    by (simp add: initFireworks_def Let_def split_beta hd_new_fireworks malformed_config_simps
        Firework_new_def)
  have u: "0 \<le> rand_unit 100 \<and> rand_unit 100 \<le> 1"
    by (rule rand_unit_range) (simp_all add: RAND_MAX_def)
  have rate: "rand_unit 100 * (- 3 - (- 6)) + (- 6) < 0" using u by simp
  show ?thesis
    using rate
    by (simp add: hd0 initFireworks_length reset_exploded reset_numParticles
        new_rocket_trails_length reset_trailParticles_sconst_100 hd_new_rocket_trails
        rand_sconst_100 malformed_config_simps smod_100)
qed

theorem initFireworks_unchecked_witness:
  "sampling_defined malformed_config
   \<and> length (fst (initFireworks malformed_config [] (sconst 100))) = 10"
  using sampling_defined_malformed initFireworks_unchecked [OF sampling_defined_malformed, of "sconst 100"]
  by (simp add: malformed_config_simps)

end
